theory Spec2Isabelle
  imports Complex_Main "HOL-Library.Multiset"
begin

section \<open>Python values used by the service\<close>

text \<open>
  Strings are byte strings (ASCII is what the fixed tables of the service contain); Python's
  floats are read as exact rationals; a dictionary with a fixed set of keys is a record.
\<close>

definition py_take :: "int \<Rightarrow> 'a list \<Rightarrow> 'a list" where
  \<comment> \<open>the slice \<open>xs[:n]\<close>: a negative bound counts from the end\<close>
  "py_take n xs = (if 0 \<le> n then take (nat n) xs else take (length xs - nat (- n)) xs)"

definition truthy :: "string option \<Rightarrow> bool" where
  \<comment> \<open>truth value of \<open>d.get(key)\<close> for a string-or-None entry\<close>
  "truthy v = (case v of None \<Rightarrow> False | Some s \<Rightarrow> s \<noteq> [])"

definition lower_char :: "char \<Rightarrow> char" where
  "lower_char c =
     (case map_of (zip ''ABCDEFGHIJKLMNOPQRSTUVWXYZ'' ''abcdefghijklmnopqrstuvwxyz'') c of
        Some l \<Rightarrow> l | None \<Rightarrow> c)"

definition upper_char :: "char \<Rightarrow> char" where
  "upper_char c =
     (case map_of (zip ''abcdefghijklmnopqrstuvwxyz'' ''ABCDEFGHIJKLMNOPQRSTUVWXYZ'') c of
        Some u \<Rightarrow> u | None \<Rightarrow> c)"

definition lower :: "string \<Rightarrow> string" where
  "lower s = map lower_char s"

definition upper :: "string \<Rightarrow> string" where
  "upper s = map upper_char s"

fun starts_with :: "string \<Rightarrow> string \<Rightarrow> bool" where
  "starts_with [] s = True"
| "starts_with (p # ps) [] = False"
| "starts_with (p # ps) (c # cs) = (p = c \<and> starts_with ps cs)"

fun str_in :: "string \<Rightarrow> string \<Rightarrow> bool" where
  \<comment> \<open>\<open>sub in s\<close> on strings\<close>
  "str_in sub [] = (sub = [])"
| "str_in sub (c # cs) = (starts_with sub (c # cs) \<or> str_in sub cs)"

definition digit_char :: "nat \<Rightarrow> char" where
  "digit_char d = ''0123456789'' ! d"

definition digit_val :: "char \<Rightarrow> nat option" where
  "digit_val c = map_of (zip ''0123456789'' [0, 1, 2, 3, 4, 5, 6, 7, 8, 9]) c"

fun str_nat :: "nat \<Rightarrow> string" where
  "str_nat n = (if n < 10 then [digit_char n] else str_nat (n div 10) @ [digit_char (n mod 10)])"

declare str_nat.simps [simp del]

definition str_int :: "int \<Rightarrow> string" where
  \<comment> \<open>\<open>str(i)\<close>, also what an f-string prints for an int\<close>
  "str_int i = (if i < 0 then CHR ''-'' # str_nat (nat (- i)) else str_nat (nat i))"

definition is_space :: "char \<Rightarrow> bool" where
  "is_space c = (c \<in> set [CHR '' '', CHR 0x09, CHR 0x0A, CHR 0x0B, CHR 0x0C, CHR 0x0D,
                            CHR 0x1C, CHR 0x1D, CHR 0x1E, CHR 0x1F])"

definition strip :: "string \<Rightarrow> string" where
  "strip s = rev (dropWhile is_space (rev (dropWhile is_space s)))"

fun parse_digits :: "int \<Rightarrow> string \<Rightarrow> int option" where
  "parse_digits acc [] = Some acc"
| "parse_digits acc [c] =
     (case digit_val c of Some d \<Rightarrow> Some (10 * acc + int d) | None \<Rightarrow> None)"
| "parse_digits acc (c # d # ds) =
     (case digit_val c of
        Some v \<Rightarrow> parse_digits (10 * acc + int v) (d # ds)
      | None \<Rightarrow> if c = CHR ''_'' \<and> digit_val d \<noteq> None then parse_digits acc (d # ds) else None)"

definition parse_unsigned :: "string \<Rightarrow> int option" where
  "parse_unsigned body =
     (case body of [] \<Rightarrow> None
      | c # cs \<Rightarrow> if digit_val c = None then None else parse_digits 0 body)"

definition py_int :: "string \<Rightarrow> int option" where
  \<comment> \<open>\<open>int(s)\<close> on an ASCII string; \<open>None\<close> is the ValueError\<close>
  "py_int s =
     (case strip s of
        [] \<Rightarrow> None
      | c # cs \<Rightarrow>
          if c = CHR ''-'' then map_option uminus (parse_unsigned cs)
          else if c = CHR ''+'' then parse_unsigned cs
          else parse_unsigned (c # cs))"

section \<open>Similarity scorer\<close>

text \<open>
  The dictionary returned by \<open>_get_tmdb_details\<close>. \<open>director\<close> and \<open>collection\<close> may be
  \<open>None\<close>; \<open>release_year\<close> is a string (empty when no date is known).
\<close>

record details =
  details_id :: int
  director :: "string option"
  cast :: "string list"
  genres :: "string list"
  keyword_names :: "string list"
  companies :: "string list"
  budget :: int
  revenue :: int
  runtime :: int
  d_rating :: rat
  release_year :: string
  collection :: "string option"

definition overlap :: "string list \<Rightarrow> string list \<Rightarrow> nat" where
  \<comment> \<open>\<open>len(set(xs) & set(ys))\<close>\<close>
  "overlap xs ys = length (filter (\<lambda>x. x \<in> set ys) (remdups xs))"

definition similarity_score :: "details \<Rightarrow> details \<Rightarrow> rat" where
  \<comment> \<open>the body of the loop of \<open>_score_recommendations\<close> between \<open>score = 0.0\<close> and
      \<open>candidate["_score"] = score\<close>, statement by statement\<close>
  "similarity_score source_details candidate_details =
    (let score = 0;
         score = (if truthy (collection source_details) \<and> truthy (collection candidate_details)
                  then (if collection source_details = collection candidate_details
                        then score + 50 else score)
                  else score);
         score = (if truthy (director source_details) \<and> truthy (director candidate_details)
                  then (if director source_details = director candidate_details
                        then score + 30 else score)
                  else score);
         cast_overlap = overlap (cast source_details) (cast candidate_details);
         score = score + min (of_nat cast_overlap * 5) 25;
         genre_overlap = overlap (genres source_details) (genres candidate_details);
         score = score + min (of_nat genre_overlap * 10) 20;
         keyword_overlap = overlap (keyword_names source_details) (keyword_names candidate_details);
         score = score + min (of_nat keyword_overlap * 2) 15;
         company_overlap = overlap (companies source_details) (companies candidate_details);
         score = score + min (of_nat company_overlap * (15 / 2)) 15;
         score = (if budget source_details > 0 \<and> budget candidate_details > 0
                  then (let budget_ratio =
                              (of_int (min (budget source_details) (budget candidate_details)) :: rat)
                              / of_int (max (budget source_details) (budget candidate_details))
                        in if budget_ratio > 1 / 2 then score + 10 else score)
                  else score);
         score = (if runtime source_details > 0 \<and> runtime candidate_details > 0
                  then (let runtime_diff = \<bar>runtime source_details - runtime candidate_details\<bar>
                        in if runtime_diff < 30 then score + 5 else score)
                  else score);
         score = (if d_rating source_details > 0 \<and> d_rating candidate_details > 0
                  then (let rating_diff = \<bar>d_rating source_details - d_rating candidate_details\<bar>
                        in if rating_diff < 3 / 2 then score + 5 else score)
                  else score);
         score = (case (py_int (release_year source_details),
                        py_int (release_year candidate_details)) of
                    (Some ys, Some yc) \<Rightarrow> if \<bar>ys - yc\<bar> \<le> 5 then score + 5 else score
                  | _ \<Rightarrow> score)
     in score)"

subsection \<open>The factor table of the specification\<close>

definition franchise_points :: "details \<Rightarrow> details \<Rightarrow> rat" where
  "franchise_points s c =
     (if truthy (collection s) \<and> truthy (collection c) \<and> collection s = collection c
      then 50 else 0)"

definition director_points :: "details \<Rightarrow> details \<Rightarrow> rat" where
  "director_points s c =
     (if truthy (director s) \<and> truthy (director c) \<and> director s = director c then 30 else 0)"

definition cast_points :: "details \<Rightarrow> details \<Rightarrow> rat" where
  "cast_points s c = min (5 * of_nat (card (set (cast s) \<inter> set (cast c)))) 25"

definition genre_points :: "details \<Rightarrow> details \<Rightarrow> rat" where
  "genre_points s c = min (10 * of_nat (card (set (genres s) \<inter> set (genres c)))) 20"

definition keyword_points :: "details \<Rightarrow> details \<Rightarrow> rat" where
  "keyword_points s c = min (2 * of_nat (card (set (keyword_names s) \<inter> set (keyword_names c)))) 15"

definition production_points :: "details \<Rightarrow> details \<Rightarrow> rat" where
  "production_points s c =
     min ((15 / 2) * of_nat (card (set (companies s) \<inter> set (companies c)))) 15"

definition budget_points :: "details \<Rightarrow> details \<Rightarrow> rat" where
  "budget_points s c =
     (if budget s > 0 \<and> budget c > 0 \<and>
         (of_int (min (budget s) (budget c)) :: rat) / of_int (max (budget s) (budget c)) > 1 / 2
      then 10 else 0)"

definition runtime_points :: "details \<Rightarrow> details \<Rightarrow> rat" where
  "runtime_points s c =
     (if runtime s > 0 \<and> runtime c > 0 \<and> \<bar>runtime s - runtime c\<bar> < 30 then 5 else 0)"

definition rating_points :: "details \<Rightarrow> details \<Rightarrow> rat" where
  "rating_points s c =
     (if d_rating s > 0 \<and> d_rating c > 0 \<and> \<bar>d_rating s - d_rating c\<bar> < 3 / 2 then 5 else 0)"

definition year_points :: "details \<Rightarrow> details \<Rightarrow> rat" where
  "year_points s c =
     (case py_int (release_year s) of
        None \<Rightarrow> 0
      | Some ys \<Rightarrow> (case py_int (release_year c) of
                     None \<Rightarrow> 0
                   | Some yc \<Rightarrow> if \<bar>ys - yc\<bar> \<le> 5 then 5 else 0))"

definition spec_score :: "details \<Rightarrow> details \<Rightarrow> rat" where
  "spec_score s c =
     franchise_points s c + director_points s c + cast_points s c + genre_points s c +
     keyword_points s c + production_points s c + budget_points s c + runtime_points s c +
     rating_points s c + year_points s c"

section \<open>Availability: the primary platform\<close>

record provider =
  p_platform :: string
  p_url :: string

definition platform_priority :: "string list" where
  "platform_priority = [''netflix'', ''disney'', ''prime'', ''hulu'', ''hbo'', ''apple'', ''peacock'']"

fun first_with_platform :: "string \<Rightarrow> provider list \<Rightarrow> provider option" where
  \<comment> \<open>the inner loop: the first \<open>p\<close> with \<open>p["platform"] == priority_platform\<close>\<close>
  "first_with_platform name [] = None"
| "first_with_platform name (p # ps) =
     (if p_platform p = name then Some p else first_with_platform name ps)"

fun priority_loop :: "string list \<Rightarrow> provider list \<Rightarrow> provider \<Rightarrow> provider" where
  \<comment> \<open>the outer loop over \<open>platform_priority\<close>, with its \<open>break\<close>\<close>
  "priority_loop [] platforms primary_platform = primary_platform"
| "priority_loop (priority_platform # rest) platforms primary_platform =
     (let primary_platform =
            (case first_with_platform priority_platform platforms of
               Some p \<Rightarrow> p | None \<Rightarrow> primary_platform)
      in if p_platform primary_platform \<in> set platform_priority then primary_platform
         else priority_loop rest platforms primary_platform)"

definition choose_primary :: "provider \<Rightarrow> provider list \<Rightarrow> provider" where
  \<comment> \<open>for the non-empty list \<open>platforms = p0 # ps\<close>: \<open>primary_platform = platforms[0]\<close>, then the
      loops\<close>
  "choose_primary p0 ps = priority_loop platform_priority (p0 # ps) p0"

fun spec_primary_from :: "string list \<Rightarrow> provider list \<Rightarrow> provider \<Rightarrow> provider" where
  \<comment> \<open>the rule in the specification's words: the first name of the priority order that
      occurs anywhere in the list, else the default\<close>
  "spec_primary_from [] platforms dflt = dflt"
| "spec_primary_from (name # rest) platforms dflt =
     (case first_with_platform name platforms of
        Some p \<Rightarrow> p | None \<Rightarrow> spec_primary_from rest platforms dflt)"

definition spec_primary :: "provider \<Rightarrow> provider list \<Rightarrow> provider" where
  "spec_primary p0 ps = spec_primary_from platform_priority (p0 # ps) p0"

section \<open>Settings and the upstream catalogs\<close>

record settings =
  youtube_api_key :: string
  tmdb_api_key :: string
  database_url :: string
  api_timeout :: int
  cache_ttl :: int
  max_results_per_query :: int

text \<open>
  An HTTP request either raises inside the client (network error, timeout, a status that
  \<open>raise_for_status\<close> rejects, an undecodable body): \<open>Failure\<close>; or it yields the decoded
  JSON document. Documents are well typed: every key the client reads without a default is
  present.
\<close>

datatype 'a response = Failure | Json 'a

datatype media_type = Movie | TV

record yt_item =
  videoId :: "string option"
  snippet_title :: string
  snippet_description :: string
  snippet_thumbnail :: string
  channelTitle :: string
  publishedAt :: string

record yt_data =
  has_error :: bool
  yt_items :: "yt_item list"

record yt_params =
  yp_q :: string
  yp_regionCode :: string
  yp_maxResults :: int
  yp_videoDuration :: "string option"
  yp_order :: "string option"
  yp_relevanceLanguage :: "string option"
  yp_safeSearch :: "string option"

record tmdb_result =
  r_id :: int
  r_title :: string
  r_overview :: string
  r_poster_path :: "string option"
  r_date :: string
  r_popularity :: rat

record tmdb_data =
  crew :: "(string option \<times> string option) list option"
  cast_names :: "string list option"
  genre_names :: "string list"
  keywords_keywords :: "string list option"
  keywords_results :: "string list option"
  production_companies :: "string list"
  belongs_to_collection :: "string option option"
  data_runtime :: "int option"
  episode_run_time :: "int list option"
  data_release_date :: string
  first_air_date :: string
  data_budget :: "int option"
  data_revenue :: "int option"
  vote_average :: "rat option"

record us_providers =
  flatrate :: "int list"
  buy :: "int list"

text \<open>
  Everything outside the process: the two catalogs, the clock read by the ranking pass
  (\<open>days_old s\<close> is the age in days of the timestamp \<open>s\<close>, \<open>None\<close> when it does not parse) and
  the successive values of \<open>random.random()\<close>. Within one request a catalog answers the same
  request the same way.
\<close>

record world =
  youtube_search :: "yt_params \<Rightarrow> yt_data response"
  tmdb_search :: "string \<Rightarrow> media_type \<Rightarrow> tmdb_result list response"
  tmdb_similar :: "int \<Rightarrow> media_type \<Rightarrow> tmdb_result list response"
  tmdb_discover :: "string \<Rightarrow> media_type \<Rightarrow> (int \<times> tmdb_result list) response"
  tmdb_details :: "int \<Rightarrow> media_type \<Rightarrow> tmdb_data response"
  tmdb_title :: "int \<Rightarrow> media_type \<Rightarrow> string option response"
  tmdb_watch_providers :: "int \<Rightarrow> media_type \<Rightarrow> us_providers response"
  days_old :: "string \<Rightarrow> int option"
  random :: "nat \<Rightarrow> rat"

section \<open>Content items and the YouTube client\<close>

record item =
  item_id :: string
  title :: string
  description :: string
  thumbnail :: string
  channel :: string
  published_at :: string
  platform :: string
  url :: string
  all_platforms :: "string list option"
  rating :: "rat option"
  year :: "string option"

definition transform_youtube_item :: "yt_item \<Rightarrow> item option" where
  "transform_youtube_item it =
     (case videoId it of
        None \<Rightarrow> None
      | Some video_id \<Rightarrow>
          if video_id = [] then None
          else Some \<lparr>item_id = video_id, title = snippet_title it,
                      description = snippet_description it, thumbnail = snippet_thumbnail it,
                      channel = channelTitle it, published_at = publishedAt it,
                      platform = ''youtube'',
                      url = ''https://www.youtube.com/watch?v='' @ video_id,
                      all_platforms = None, rating = None, year = None\<rparr>)"

definition mock_item :: "string \<Rightarrow> string \<Rightarrow> string \<Rightarrow> string \<Rightarrow> string \<Rightarrow> string \<Rightarrow> string \<Rightarrow> item" where
  "mock_item video_id ttl descr thumb chan published plat =
     \<lparr>item_id = video_id, title = ttl, description = descr, thumbnail = thumb, channel = chan,
      published_at = published, platform = plat,
      url = ''https://www.youtube.com/watch?v='' @ video_id,
      all_platforms = None, rating = None, year = None\<rparr>"

definition mock_youtube_videos :: "(string \<times> string \<times> string \<times> string) list" where
  "mock_youtube_videos =
    [(''MrBeast - $1 vs $500,000 Experiences'', ''jk7GA4EZZrw'', ''https://i.ytimg.com/vi/jk7GA4EZZrw/hqdefault.jpg'', ''MrBeast''),
     (''Mark Rober - Glitter Bomb 5.0'', ''h4T_LlK1VE4'', ''https://i.ytimg.com/vi/h4T_LlK1VE4/hqdefault.jpg'', ''Mark Rober''),
     (''Veritasium - The Most Powerful Computers'', ''IxkSlnrRFqc'', ''https://i.ytimg.com/vi/IxkSlnrRFqc/hqdefault.jpg'', ''Veritasium''),
     (''Marques Brownlee - iPhone 15 Review'', ''TUXpoM9OY3M'', ''https://i.ytimg.com/vi/TUXpoM9OY3M/hqdefault.jpg'', ''MKBHD''),
     (''Kurzgesagt - What if You Detonated a Nuclear Bomb'', ''5iPH-br_eJQ'', ''https://i.ytimg.com/vi/5iPH-br_eJQ/hqdefault.jpg'', ''Kurzgesagt''),
     (''Vsauce - What If Everyone Jumped at Once'', ''jHbyQ_AQP8c'', ''https://i.ytimg.com/vi/jHbyQ_AQP8c/hqdefault.jpg'', ''Vsauce''),
     (''Dude Perfect - Extreme Hide and Seek'', ''rf0Lsjewg8c'', ''https://i.ytimg.com/vi/rf0Lsjewg8c/hqdefault.jpg'', ''Dude Perfect''),
     (''Casey Neistat - DO WHAT YOU CAN'' @ [CHR 0x27] @ ''T'', ''jG7dSXcfVqE'', ''https://i.ytimg.com/vi/jG7dSXcfVqE/hqdefault.jpg'', ''Casey Neistat'')]"

definition get_mock_youtube_results :: "string \<Rightarrow> item list" where
  "get_mock_youtube_results query =
     map (\<lambda>(ttl, video_id, thumb, chan).
            mock_item video_id ttl (''Popular video about '' @ query) thumb chan
              ''2024-01-15T12:00:00Z'' ''youtube'')
         mock_youtube_videos"

definition mock_shorts :: "(string \<times> string \<times> string \<times> string) list" where
  "mock_shorts =
    [(''Labubu Unboxing #1'', ''nXA_f0xBSjw'', ''https://i.ytimg.com/vi/nXA_f0xBSjw/hqdefault.jpg'', ''Toy Reviews''),
     (''Labubu Collection Tour'', ''8VGF-rQqF7Q'', ''https://i.ytimg.com/vi/8VGF-rQqF7Q/hqdefault.jpg'', ''Collectibles Hub''),
     (''Viral Dance Trend'', ''2g6J6vT5mBU'', ''https://i.ytimg.com/vi/2g6J6vT5mBU/hqdefault.jpg'', ''TikTok Dancer''),
     (''Funny Cat Moment'', ''J---aiyznGQ'', ''https://i.ytimg.com/vi/J---aiyznGQ/hqdefault.jpg'', ''Cat Lover''),
     (''Quick Recipe Hack'', ''0FTw0UHb3vw'', ''https://i.ytimg.com/vi/0FTw0UHb3vw/hqdefault.jpg'', ''Food Shorts''),
     (''Life Hack You Need'', ''dQw4w9WgXcQ'', ''https://i.ytimg.com/vi/dQw4w9WgXcQ/hqdefault.jpg'', ''Daily Tips''),
     (''Satisfying Video'', ''9bZkp7q19f0'', ''https://i.ytimg.com/vi/9bZkp7q19f0/hqdefault.jpg'', ''Oddly Satisfying''),
     (''Epic Fail Compilation'', ''K5le9sYdYkM'', ''https://i.ytimg.com/vi/K5le9sYdYkM/hqdefault.jpg'', ''Fail Army''),
     (''Magic Trick Revealed'', ''YbJOTdZBX1g'', ''https://i.ytimg.com/vi/YbJOTdZBX1g/hqdefault.jpg'', ''Magic Show''),
     (''Cute Puppy Reaction'', ''2Vv-BfVoq4g'', ''https://i.ytimg.com/vi/2Vv-BfVoq4g/hqdefault.jpg'', ''Pet Channel'')]"

definition get_mock_shorts_results :: "string \<Rightarrow> item list" where
  "get_mock_shorts_results query =
     map (\<lambda>(ttl, video_id, thumb, chan).
            mock_item video_id ttl (''Viral '' @ query @ '' content'') thumb chan
              ''2024-01-15T12:00:00Z'' ''tiktok'')
         mock_shorts"

definition movie_recommendations :: "(string \<times> (string \<times> string \<times> string) list) list" where
  \<comment> \<open>the dictionary \<open>recommendations\<close> of \<open>_get_mock_movie_results\<close>, in insertion order\<close>
  "movie_recommendations =
    [(''avengers'',
      [(''Iron Man Official Trailer'', ''8ugaeA-nMTc'', ''https://i.ytimg.com/vi/8ugaeA-nMTc/hqdefault.jpg''),
       (''Captain America: Winter Soldier Trailer'', ''7SlILk2WMTI'', ''https://i.ytimg.com/vi/7SlILk2WMTI/hqdefault.jpg''),
       (''Thor Official Trailer'', ''JOddp-nlNvQ'', ''https://i.ytimg.com/vi/JOddp-nlNvQ/hqdefault.jpg''),
       (''Guardians of the Galaxy Trailer'', ''d96cjJhvlMA'', ''https://i.ytimg.com/vi/d96cjJhvlMA/hqdefault.jpg''),
       (''Black Panther Official Trailer'', ''xjDjIWPwcPU'', ''https://i.ytimg.com/vi/xjDjIWPwcPU/hqdefault.jpg''),
       (''Doctor Strange Trailer'', ''HSzx-zryEgM'', ''https://i.ytimg.com/vi/HSzx-zryEgM/hqdefault.jpg'')]),
     (''inception'',
      [(''Interstellar Trailer'', ''zSWdZVtXT7E'', ''https://i.ytimg.com/vi/zSWdZVtXT7E/hqdefault.jpg''),
       (''Shutter Island Trailer'', ''5iaYLCiq5RM'', ''https://i.ytimg.com/vi/5iaYLCiq5RM/hqdefault.jpg''),
       (''The Prestige Trailer'', ''o4gHCmTQDVI'', ''https://i.ytimg.com/vi/o4gHCmTQDVI/hqdefault.jpg''),
       (''Memento Trailer'', ''HDWylEQSwFo'', ''https://i.ytimg.com/vi/HDWylEQSwFo/hqdefault.jpg''),
       (''Tenet Trailer'', ''AZGcmvrTX9M'', ''https://i.ytimg.com/vi/AZGcmvrTX9M/hqdefault.jpg''),
       (''The Matrix Trailer'', ''m8e-FF8MsqU'', ''https://i.ytimg.com/vi/m8e-FF8MsqU/hqdefault.jpg'')]),
     (''spider-man'',
      [(''Spider-Man: No Way Home'', ''JfVOs4VSpmA'', ''https://i.ytimg.com/vi/JfVOs4VSpmA/hqdefault.jpg''),
       (''Spider-Man: Into the Spider-Verse'', ''g4Hbz2jLxvQ'', ''https://i.ytimg.com/vi/g4Hbz2jLxvQ/hqdefault.jpg''),
       (''The Amazing Spider-Man'', ''DyLUwOcR5pk'', ''https://i.ytimg.com/vi/DyLUwOcR5pk/hqdefault.jpg''),
       (''Spider-Man: Homecoming'', ''rk-dF1lIbIg'', ''https://i.ytimg.com/vi/rk-dF1lIbIg/hqdefault.jpg''),
       (''Spider-Man: Far From Home'', ''Nt9L1jCKGnE'', ''https://i.ytimg.com/vi/Nt9L1jCKGnE/hqdefault.jpg''),
       (''Venom'', ''u9Mv98Gr5pY'', ''https://i.ytimg.com/vi/u9Mv98Gr5pY/hqdefault.jpg'')]),
     (''batman'',
      [(''The Batman Trailer'', ''mqqft2x_Aa4'', ''https://i.ytimg.com/vi/mqqft2x_Aa4/hqdefault.jpg''),
       (''The Dark Knight Trailer'', ''EXeTwQWrcwY'', ''https://i.ytimg.com/vi/EXeTwQWrcwY/hqdefault.jpg''),
       (''Batman Begins Trailer'', ''neY2xVmOfUM'', ''https://i.ytimg.com/vi/neY2xVmOfUM/hqdefault.jpg''),
       (''Joker Trailer'', ''zAGVQLHvwOY'', ''https://i.ytimg.com/vi/zAGVQLHvwOY/hqdefault.jpg''),
       (''Justice League Trailer'', ''3cxixDgHUYw'', ''https://i.ytimg.com/vi/3cxixDgHUYw/hqdefault.jpg''),
       (''Superman Man of Steel'', ''T6DJcgm3wNY'', ''https://i.ytimg.com/vi/T6DJcgm3wNY/hqdefault.jpg'')])]"

definition default_trailers :: "(string \<times> string \<times> string) list" where
  "default_trailers =
    [(''Dune: Part Two Trailer'', ''Way9Dexny3w'', ''https://i.ytimg.com/vi/Way9Dexny3w/hqdefault.jpg''),
     (''Oppenheimer Trailer'', ''uYPbbksJxIg'', ''https://i.ytimg.com/vi/uYPbbksJxIg/hqdefault.jpg''),
     (''Barbie Trailer'', ''pBk4NYhWNMM'', ''https://i.ytimg.com/vi/pBk4NYhWNMM/hqdefault.jpg''),
     (''Deadpool & Wolverine'', ''73_1biulkYk'', ''https://i.ytimg.com/vi/73_1biulkYk/hqdefault.jpg''),
     (''The Marvels Trailer'', ''wS_qbDztgVY'', ''https://i.ytimg.com/vi/wS_qbDztgVY/hqdefault.jpg''),
     (''Top Gun: Maverick'', ''giXco2jaZ_4'', ''https://i.ytimg.com/vi/giXco2jaZ_4/hqdefault.jpg'')]"

fun partial_match :: "string \<Rightarrow> (string \<times> (string \<times> string \<times> string) list) list \<Rightarrow>
    (string \<times> string \<times> string) list" where
  \<comment> \<open>the \<open>for key in recommendations ... else\<close> loop\<close>
  "partial_match query_lower [] = default_trailers"
| "partial_match query_lower ((key, vids) # rest) =
     (if str_in key query_lower \<or> str_in query_lower key then vids
      else partial_match query_lower rest)"

definition select_videos :: "string \<Rightarrow> (string \<times> string \<times> string) list" where
  "select_videos query =
     (let query_lower = lower query in
      case map_of movie_recommendations query_lower of
        Some videos \<Rightarrow> videos
      | None \<Rightarrow> partial_match query_lower movie_recommendations)"

definition get_mock_movie_results :: "string \<Rightarrow> string \<Rightarrow> item list" where
  "get_mock_movie_results query category =
     map (\<lambda>(ttl, video_id, thumb).
            mock_item video_id ttl ''Watch the official trailer'' thumb ''Official Movie Trailers''
              ''2024-01-10T12:00:00Z'' category)
         (select_videos query)"

definition get_youtube_recommendations :: "settings \<Rightarrow> world \<Rightarrow> string \<Rightarrow> string \<Rightarrow> item list" where
  "get_youtube_recommendations st w search_query region =
     (case youtube_search w
             \<lparr>yp_q = search_query, yp_regionCode = region,
              yp_maxResults = max_results_per_query st, yp_videoDuration = None,
              yp_order = Some ''relevance'', yp_relevanceLanguage = Some ''en'',
              yp_safeSearch = Some ''moderate''\<rparr> of
        Failure \<Rightarrow> get_mock_youtube_results search_query
      | Json data \<Rightarrow>
          if has_error data then get_mock_youtube_results search_query
          else (let results = List.map_filter transform_youtube_item (yt_items data)
                in if results \<noteq> [] then results else get_mock_youtube_results search_query))"

definition tiktok_search :: "world \<Rightarrow> string \<Rightarrow> string \<Rightarrow> item list" where
  \<comment> \<open>one turn of the loop over \<open>search_strategies\<close>: the items it appends\<close>
  "tiktok_search w query_variant region =
     (case youtube_search w
             \<lparr>yp_q = query_variant, yp_regionCode = region, yp_maxResults = 10,
              yp_videoDuration = Some ''short'', yp_order = Some ''viewCount'',
              yp_relevanceLanguage = None, yp_safeSearch = None\<rparr> of
        Failure \<Rightarrow> []
      | Json data \<Rightarrow>
          map (\<lambda>transformed. transformed\<lparr>platform := ''tiktok''\<rparr>)
              (List.map_filter transform_youtube_item (yt_items data)))"

fun unique_by_id :: "string list \<Rightarrow> item list \<Rightarrow> item list" where
  \<comment> \<open>the comprehension over \<open>results\<close> that threads \<open>seen_ids\<close>\<close>
  "unique_by_id seen_ids [] = []"
| "unique_by_id seen_ids (r # rs) =
     (if item_id r \<in> set seen_ids then unique_by_id seen_ids rs
      else r # unique_by_id (item_id r # seen_ids) rs)"

definition get_tiktok_style_recommendations :: "world \<Rightarrow> string \<Rightarrow> string \<Rightarrow> item list" where
  "get_tiktok_style_recommendations w search_query region =
     (let search_strategies = [search_query @ '' tiktok viral'', search_query @ '' #shorts''];
          results = concat (map (\<lambda>query_variant. tiktok_search w query_variant region)
                                search_strategies);
          unique_results = unique_by_id [] results
      in if unique_results \<noteq> [] then take 15 unique_results
         else get_mock_shorts_results search_query)"

definition search_youtube_content :: "world \<Rightarrow> string \<Rightarrow> string \<Rightarrow> string \<Rightarrow> int \<Rightarrow> item list" where
  "search_youtube_content w query region category limit =
     (case youtube_search w
             \<lparr>yp_q = query, yp_regionCode = region, yp_maxResults = limit,
              yp_videoDuration = None, yp_order = None, yp_relevanceLanguage = None,
              yp_safeSearch = None\<rparr> of
        Failure \<Rightarrow> []
      | Json data \<Rightarrow> List.map_filter transform_youtube_item (yt_items data))"

section \<open>The structured-media catalog client\<close>

record candidate =
  c_id :: int
  c_title :: string
  c_overview :: string
  c_poster_url :: string
  c_release_date :: string
  c_popularity :: "rat option"
  c_score :: "rat option"

definition poster_url :: "string option \<Rightarrow> string" where
  "poster_url poster_path =
     (case poster_path of
        Some path \<Rightarrow>
          if path \<noteq> [] then ''https://image.tmdb.org/t/p/w500'' @ path
          else ''https://via.placeholder.com/500x750/831010/ffffff?text=No+Poster''
      | None \<Rightarrow> ''https://via.placeholder.com/500x750/831010/ffffff?text=No+Poster'')"

definition search_tmdb :: "world \<Rightarrow> string \<Rightarrow> media_type \<Rightarrow> candidate option" where
  "search_tmdb w query mt =
     (case tmdb_search w query mt of
        Failure \<Rightarrow> None
      | Json results \<Rightarrow>
          (case results of
             [] \<Rightarrow> None
           | result # _ \<Rightarrow>
               Some \<lparr>c_id = r_id result, c_title = r_title result, c_overview = r_overview result,
                     c_poster_url = poster_url (r_poster_path result),
                     c_release_date = r_date result, c_popularity = None, c_score = None\<rparr>))"

definition popular_candidate :: "tmdb_result \<Rightarrow> candidate" where
  \<comment> \<open>the dictionary built for an item of the similar and discover endpoints\<close>
  "popular_candidate it =
     \<lparr>c_id = r_id it, c_title = r_title it, c_overview = r_overview it,
      c_poster_url = poster_url (r_poster_path it), c_release_date = r_date it,
      c_popularity = Some (r_popularity it), c_score = None\<rparr>"

definition popularity_key :: "candidate \<Rightarrow> rat" where
  \<comment> \<open>\<open>x.get("popularity", 0)\<close>\<close>
  "popularity_key x = (case c_popularity x of Some p \<Rightarrow> p | None \<Rightarrow> 0)"

definition get_tmdb_similar :: "world \<Rightarrow> int \<Rightarrow> media_type \<Rightarrow> candidate list" where
  "get_tmdb_similar w media_id mt =
     (case tmdb_similar w media_id mt of
        Failure \<Rightarrow> []
      | Json results \<Rightarrow>
          (let similar_items = map popular_candidate
                                 (filter (\<lambda>it. r_popularity it > 10) (take 30 results))
           in take 20 (sort_key (\<lambda>x. - popularity_key x) similar_items)))"

definition get_tmdb_title :: "world \<Rightarrow> int \<Rightarrow> media_type \<Rightarrow> string" where
  "get_tmdb_title w media_id mt =
     (case tmdb_title w media_id mt of
        Failure \<Rightarrow> ''Unknown''
      | Json None \<Rightarrow> ''Unknown''
      | Json (Some t) \<Rightarrow> t)"

definition hex_digit :: "nat \<Rightarrow> char" where
  "hex_digit n = ''0123456789ABCDEF'' ! n"

definition quote :: "string \<Rightarrow> string" where
  \<comment> \<open>\<open>urllib.parse.quote\<close> with its default \<open>safe='/'\<close>, on the bytes of the string\<close>
  "quote s =
     concat (map (\<lambda>c. if c \<in> set ''ABCDEFGHIJKLMNOPQRSTUVWXYZabcdefghijklmnopqrstuvwxyz0123456789_.-~/''
                       then [c]
                       else [CHR ''%'', hex_digit ((of_char c :: nat) div 16),
                             hex_digit ((of_char c :: nat) mod 16)]) s)"

definition construct_platform_url :: "string \<Rightarrow> int \<Rightarrow> media_type \<Rightarrow> string \<Rightarrow> string" where
  "construct_platform_url plat tmdb_id mt ttl =
     (let clean_title = quote ttl in
      if plat = ''netflix'' then ''https://www.netflix.com/browse''
      else if plat = ''prime'' then ''https://www.amazon.com/s?k='' @ clean_title @ ''&i=instant-video''
      else if plat = ''disney'' then ''https://www.disneyplus.com/''
      else if plat = ''hulu'' then ''https://www.hulu.com/hub/home''
      else if plat = ''hbo'' then ''https://www.max.com/''
      else if plat = ''apple'' then ''https://tv.apple.com/''
      else if plat = ''peacock'' then ''https://www.peacocktv.com/''
      else ''https://www.amazon.com/s?k='' @ clean_title @ ''&i=instant-video'')"

definition provider_mapping :: "(int \<times> string) list" where
  "provider_mapping =
     [(8, ''netflix''), (9, ''prime''), (337, ''disney''), (15, ''hulu''), (384, ''hbo''),
      (350, ''apple''), (386, ''peacock'')]"

definition mapped_providers :: "int list \<Rightarrow> int \<Rightarrow> media_type \<Rightarrow> string \<Rightarrow> provider list" where
  \<comment> \<open>the loop shared by the flatrate and the buy branch\<close>
  "mapped_providers provider_ids media_id mt ttl =
     List.map_filter
       (\<lambda>provider_id.
          case map_of provider_mapping provider_id of
            None \<Rightarrow> None
          | Some plat \<Rightarrow>
              Some \<lparr>p_platform = plat, p_url = construct_platform_url plat media_id mt ttl\<rparr>)
       provider_ids"

definition get_tmdb_watch_providers :: "world \<Rightarrow> int \<Rightarrow> media_type \<Rightarrow> provider list" where
  "get_tmdb_watch_providers w media_id mt =
     (case tmdb_watch_providers w media_id mt of
        Failure \<Rightarrow> []
      | Json us_data \<Rightarrow>
          (let ttl = get_tmdb_title w media_id mt;
               providers = mapped_providers (flatrate us_data) media_id mt ttl
           in if providers = [] then mapped_providers (take 3 (buy us_data)) media_id mt ttl
              else providers))"

fun find_director :: "(string option \<times> string option) list \<Rightarrow> string option" where
  "find_director [] = None"
| "find_director ((job, name) # rest) =
     (if job = Some ''Director'' then name else find_director rest)"

definition extract_details :: "int \<Rightarrow> media_type \<Rightarrow> tmdb_data \<Rightarrow> details" where
  \<comment> \<open>the dictionary \<open>_get_tmdb_details\<close> builds from the decoded document\<close>
  "extract_details media_id mt data =
     \<lparr>details_id = media_id,
      director = (if mt = Movie then (case crew data of Some cr \<Rightarrow> find_director cr | None \<Rightarrow> None)
                  else None),
      cast = (case cast_names data of Some names \<Rightarrow> take 10 names | None \<Rightarrow> []),
      genres = genre_names data,
      keyword_names =
        (if mt = Movie then (case keywords_keywords data of Some ks \<Rightarrow> take 15 ks | None \<Rightarrow> [])
         else (case keywords_results data of Some ks \<Rightarrow> take 15 ks | None \<Rightarrow> [])),
      companies = take 5 (production_companies data),
      budget = (if mt = Movie then (case data_budget data of Some b \<Rightarrow> b | None \<Rightarrow> 0) else 0),
      revenue = (if mt = Movie then (case data_revenue data of Some r \<Rightarrow> r | None \<Rightarrow> 0) else 0),
      runtime =
        (if mt = Movie then (case data_runtime data of Some r \<Rightarrow> r | None \<Rightarrow> 0)
         else (case episode_run_time data of Some (r # _) \<Rightarrow> r | _ \<Rightarrow> 0)),
      d_rating = (case vote_average data of Some v \<Rightarrow> v | None \<Rightarrow> 0),
      release_year =
        (if length (data_release_date data) \<ge> 4 then take 4 (data_release_date data)
         else if length (first_air_date data) \<ge> 4 then take 4 (first_air_date data)
         else []),
      collection =
        (if mt = Movie then (case belongs_to_collection data of Some name \<Rightarrow> name | None \<Rightarrow> None)
         else None)\<rparr>"

definition get_tmdb_details :: "world \<Rightarrow> int \<Rightarrow> media_type \<Rightarrow> details option" where
  "get_tmdb_details w media_id mt =
     (case tmdb_details w media_id mt of
        Failure \<Rightarrow> None
      | Json data \<Rightarrow> Some (extract_details media_id mt data))"

section \<open>Candidate aggregation and scoring\<close>

definition genre_mapping :: "(string \<times> int) list" where
  "genre_mapping =
     [(''Action'', 28), (''Adventure'', 12), (''Animation'', 16), (''Comedy'', 35),
      (''Crime'', 80), (''Documentary'', 99), (''Drama'', 18), (''Family'', 10751),
      (''Fantasy'', 14), (''History'', 36), (''Horror'', 27), (''Music'', 10402),
      (''Mystery'', 9648), (''Romance'', 10749), (''Science Fiction'', 878),
      (''TV Movie'', 10770), (''Thriller'', 53), (''War'', 10752), (''Western'', 37)]"

definition get_genre_ids :: "string list \<Rightarrow> media_type \<Rightarrow> int list" where
  "get_genre_ids names mt = List.map_filter (map_of genre_mapping) names"

fun join_commas :: "string list \<Rightarrow> string" where
  "join_commas [] = []"
| "join_commas [x] = x"
| "join_commas (x # y # ys) = x @ '','' @ join_commas (y # ys)"

fun dict_set :: "int \<Rightarrow> candidate \<Rightarrow> (int \<times> candidate) list \<Rightarrow> (int \<times> candidate) list" where
  \<comment> \<open>\<open>d[k] = v\<close> on an insertion-ordered dictionary: a known key keeps its place\<close>
  "dict_set k v [] = [(k, v)]"
| "dict_set k v ((k', v') # rest) =
     (if k' = k then (k, v) # rest else (k', v') # dict_set k v rest)"

fun add_similar :: "candidate list \<Rightarrow> (int \<times> candidate) list \<Rightarrow> (int \<times> candidate) list" where
  "add_similar [] all_candidates = all_candidates"
| "add_similar (it # rest) all_candidates = add_similar rest (dict_set (c_id it) it all_candidates)"

fun add_discovered :: "int \<Rightarrow> tmdb_result list \<Rightarrow> (int \<times> candidate) list \<Rightarrow>
    (int \<times> candidate) list" where
  "add_discovered media_id [] all_candidates = all_candidates"
| "add_discovered media_id (it # rest) all_candidates =
     add_discovered media_id rest
       (if r_id it \<notin> set (map fst all_candidates) \<and> r_id it \<noteq> media_id
        then (if r_popularity it > 10
              then dict_set (r_id it) (popular_candidate it) all_candidates
              else all_candidates)
        else all_candidates)"

definition get_tmdb_recommendations_multi_strategy ::
    "world \<Rightarrow> int \<Rightarrow> media_type \<Rightarrow> details \<Rightarrow> candidate list" where
  "get_tmdb_recommendations_multi_strategy w media_id mt source_details =
     (let all_candidates = add_similar (get_tmdb_similar w media_id mt) [] in
      if genres source_details \<noteq> [] then
        (case tmdb_discover w
                (join_commas (map str_int (get_genre_ids (genres source_details) mt))) mt of
           Failure \<Rightarrow> map snd all_candidates
         | Json (status_code, results) \<Rightarrow>
             take 30 (map snd (if status_code = 200
                               then add_discovered media_id (take 15 results) all_candidates
                               else all_candidates)))
      else take 30 (map snd all_candidates))"

definition score_candidate :: "world \<Rightarrow> details \<Rightarrow> media_type \<Rightarrow> candidate \<Rightarrow> candidate option" where
  \<comment> \<open>one turn of the loop of \<open>_score_recommendations\<close>: \<open>None\<close> when the turn ends in
      \<open>continue\<close>, else the candidate appended, with its \<open>_score\<close>\<close>
  "score_candidate w source_details mt cand =
     (if c_id cand = details_id source_details then None
      else (case get_tmdb_details w (c_id cand) mt of
              None \<Rightarrow> None
            | Some candidate_details \<Rightarrow>
                Some (cand\<lparr>c_score := Some (similarity_score source_details candidate_details)\<rparr>)))"

definition score_key :: "candidate \<Rightarrow> rat" where
  \<comment> \<open>\<open>x.get("_score", 0)\<close>\<close>
  "score_key x = (case c_score x of Some sc \<Rightarrow> sc | None \<Rightarrow> 0)"

definition score_recommendations :: "world \<Rightarrow> details \<Rightarrow> candidate list \<Rightarrow> media_type \<Rightarrow> candidate list" where
  "score_recommendations w source_details candidates mt =
     (let scored_candidates = List.map_filter (score_candidate w source_details mt) candidates
      in sort_key (\<lambda>x. - score_key x) scored_candidates)"

definition py_round1 :: "rat \<Rightarrow> rat" where
  \<comment> \<open>\<open>round(x, 1)\<close> read on exact values: to the nearest tenth, ties to the even tenth\<close>
  "py_round1 x =
     (let t = x * 10; f = \<lfloor>t\<rfloor>; d = t - of_int f in
      if d < 1 / 2 then of_int f / 10
      else if d > 1 / 2 then of_int (f + 1) / 10
      else if even f then of_int f / 10 else of_int (f + 1) / 10)"

definition make_card :: "world \<Rightarrow> media_type \<Rightarrow> candidate \<Rightarrow> provider \<Rightarrow> provider list \<Rightarrow> item" where
  \<comment> \<open>the body of \<open>if platforms:\<close> for \<open>platforms = p0 # ps\<close>\<close>
  "make_card w mt it p0 ps =
     (let primary_platform = choose_primary p0 ps;
          details = get_tmdb_details w (c_id it) mt;
          rating_value = (case details of Some d \<Rightarrow> d_rating d | None \<Rightarrow> 0);
          release_year_value = (case details of Some d \<Rightarrow> release_year d | None \<Rightarrow> [])
      in \<lparr>item_id = str_int (c_id it), title = c_title it,
           description = take 200 (c_overview it), thumbnail = c_poster_url it,
           channel = upper (p_platform primary_platform),
           published_at = c_release_date it,
           platform = p_platform primary_platform, url = p_url primary_platform,
           all_platforms = Some (map p_platform (p0 # ps)),
           rating = Some (py_round1 rating_value), year = Some release_year_value\<rparr>)"

fun availability_loop :: "world \<Rightarrow> media_type \<Rightarrow> candidate list \<Rightarrow> item list \<Rightarrow> item list" where
  \<comment> \<open>the loop of step 5 over \<open>scored_items[:30]\<close>, with \<open>similar_shows\<close> as accumulator\<close>
  "availability_loop w mt [] similar_shows = similar_shows"
| "availability_loop w mt (it # rest) similar_shows =
     (let similar_shows =
            (case get_tmdb_watch_providers w (c_id it) mt of
               [] \<Rightarrow> similar_shows
             | p0 # ps \<Rightarrow> similar_shows @ [make_card w mt it p0 ps])
      in if length similar_shows \<ge> 15 then similar_shows
         else availability_loop w mt rest similar_shows)"

definition find_similar_shows :: "world \<Rightarrow> string \<Rightarrow> string \<Rightarrow> item list" where
  \<comment> \<open>the \<open>try\<close> block; on well-typed documents none of its statements raises (the clients
      catch their own failures), so the \<open>except\<close> branch is never entered\<close>
  "find_similar_shows w search_query category =
     (let mt = (if category = ''movies'' then Movie else TV) in
      case search_tmdb w search_query mt of
        None \<Rightarrow> search_youtube_content w (category @ '' similar to '' @ search_query)
                  ''US'' ''youtube'' 5
      | Some search_result \<Rightarrow>
          (case get_tmdb_details w (c_id search_result) mt of
             None \<Rightarrow> search_youtube_content w (category @ '' similar to '' @ search_query)
                       ''US'' ''youtube'' 5
           | Some source_details \<Rightarrow>
               (let candidate_items = get_tmdb_recommendations_multi_strategy w
                                        (c_id search_result) mt source_details;
                    scored_items = score_recommendations w source_details candidate_items mt
                in availability_loop w mt (take 30 scored_items) [])))"

definition get_movie_recommendations :: "world \<Rightarrow> string \<Rightarrow> string \<Rightarrow> string \<Rightarrow> item list" where
  "get_movie_recommendations w search_query region category =
     (let similar_shows = find_similar_shows w search_query category
      in if similar_shows \<noteq> [] then take 15 similar_shows
         else get_mock_movie_results search_query category)"

section \<open>Ranking pass\<close>

definition rank_score :: "world \<Rightarrow> nat \<Rightarrow> item \<Rightarrow> rat" where
  \<comment> \<open>the score given to the \<open>i\<close>-th result: the body of the first loop of \<open>_score_and_rank\<close>\<close>
  "rank_score w i result =
     (let score = 0;
          score = (case days_old w (published_at result) of
                     Some days \<Rightarrow>
                       (let recency_score = max 0 (1 - rat_of_int days / 365)
                        in score + recency_score * (7 / 10))
                   | None \<Rightarrow> score);
          score = score + random w i * (3 / 10)
      in score)"

definition score_and_rank :: "world \<Rightarrow> item list \<Rightarrow> item list" where
  "score_and_rank w results =
     (if results = [] then []
      else map snd (sort_key (\<lambda>(sc, result). - sc)
                      (map (\<lambda>(i, result). (rank_score w i result, result))
                           (enumerate 0 results))))"

section \<open>Result cache\<close>

text \<open>
  Modelled from the spec: the class \<open>TTLCache\<close> of the library \<open>cachetools\<close>, which the
  module imports and whose source is not part of the repository. A bounded, time-expiring
  cache: an entry expires a fixed TTL after it was written, expiry is checked on access, and
  beyond the maximum entry count the least recently used entry is evicted. The entries are
  kept least recently used first; every value counts as one entry. One request reads the
  timer once.
\<close>

record ttl_cache =
  maxsize :: nat
  ttl :: rat
  entries :: "(string \<times> rat \<times> item list) list"

definition TTLCache :: "nat \<Rightarrow> rat \<Rightarrow> ttl_cache" where
  "TTLCache n t = \<lparr>maxsize = n, ttl = t, entries = []\<rparr>"

definition cache_contains :: "ttl_cache \<Rightarrow> rat \<Rightarrow> string \<Rightarrow> bool" where
  \<comment> \<open>\<open>key in cache\<close> at time \<open>now\<close>\<close>
  "cache_contains c now key =
     (case map_of (entries c) key of Some (expires, v) \<Rightarrow> now < expires | None \<Rightarrow> False)"

definition cache_getitem :: "ttl_cache \<Rightarrow> rat \<Rightarrow> string \<Rightarrow> (item list \<times> ttl_cache) option" where
  \<comment> \<open>\<open>cache[key]\<close> at time \<open>now\<close>: \<open>None\<close> is the KeyError; a hit makes the key the most
      recently used\<close>
  "cache_getitem c now key =
     (case map_of (entries c) key of
        None \<Rightarrow> None
      | Some (expires, v) \<Rightarrow>
          if now < expires
          then Some (v, c\<lparr>entries := filter (\<lambda>e. fst e \<noteq> key) (entries c) @ [(key, expires, v)]\<rparr>)
          else None)"

definition cache_setitem :: "ttl_cache \<Rightarrow> rat \<Rightarrow> string \<Rightarrow> item list \<Rightarrow> ttl_cache" where
  \<comment> \<open>\<open>cache[key] = value\<close> at time \<open>now\<close>: expired entries go, then least recently used ones
      until the new entry fits (for \<open>maxsize \<ge> 1\<close>, which is how the cache is created)\<close>
  "cache_setitem c now key v =
     (let live = filter (\<lambda>(k, expires, _). now < expires) (entries c);
          others = filter (\<lambda>e. fst e \<noteq> key) live;
          kept = (if key \<in> set (map fst live) then others
                  else drop (length live + 1 - maxsize c) live)
      in c\<lparr>entries := kept @ [(key, now + ttl c, v)]\<rparr>)"

definition recommendation_cache :: "settings \<Rightarrow> ttl_cache" where
  \<comment> \<open>the module-level \<open>TTLCache(maxsize=1000, ttl=settings.cache_ttl)\<close>\<close>
  "recommendation_cache st = TTLCache 1000 (rat_of_int (cache_ttl st))"

section \<open>The entry point\<close>

definition cache_key :: "string \<Rightarrow> string \<Rightarrow> string \<Rightarrow> string" where
  "cache_key category search_query region = category @ '':'' @ search_query @ '':'' @ region"

definition pipeline :: "settings \<Rightarrow> world \<Rightarrow> string \<Rightarrow> string \<Rightarrow> string \<Rightarrow> item list" where
  \<comment> \<open>the dispatch on \<open>category\<close>: the value of \<open>results\<close>\<close>
  "pipeline st w category search_query region =
     (if category = ''youtube'' then get_youtube_recommendations st w search_query region
      else if category = ''tiktok'' then get_tiktok_style_recommendations w search_query region
      else if category \<in> set [''movies'', ''tv'']
           then get_movie_recommendations w search_query region category
      else [])"

definition get_recommendations ::
    "settings \<Rightarrow> world \<Rightarrow> rat \<Rightarrow> ttl_cache \<Rightarrow> string \<Rightarrow> string \<Rightarrow> string \<Rightarrow> int \<Rightarrow>
     item list \<times> ttl_cache" where
  \<comment> \<open>the response and the cache after the call, made at time \<open>now\<close>; the membership
      test and the read see the same timer value, so the read succeeds exactly when the test
      does\<close>
  "get_recommendations st w now cache category search_query region limit =
     (let key = cache_key category search_query region in
      case cache_getitem cache now key of
        Some (cached, cache') \<Rightarrow> (py_take limit cached, cache')
      | None \<Rightarrow>
          (let results = pipeline st w category search_query region;
               scored_results = score_and_rank w results;
               cache' = cache_setitem cache now key scored_results
           in (py_take limit scored_results, cache')))"

section \<open>Notions used to state the properties\<close>

definition cached_value :: "ttl_cache \<Rightarrow> rat \<Rightarrow> string \<Rightarrow> item list option" where
  \<comment> \<open>the list stored under \<open>key\<close> and not yet expired at time \<open>now\<close>\<close>
  "cached_value c now key =
     (case map_of (entries c) key of
        Some (expires, v) \<Rightarrow> if now < expires then Some v else None
      | None \<Rightarrow> None)"

definition with_franchise :: "world \<Rightarrow> int \<Rightarrow> string option \<Rightarrow> world" where
  \<comment> \<open>the same catalogs, except that the title \<open>k\<close> is listed in the collection \<open>name\<close>\<close>
  "with_franchise w k name =
     w\<lparr>tmdb_details := (\<lambda>media_id mt.
          if media_id = k
          then (case tmdb_details w media_id mt of
                  Failure \<Rightarrow> Failure
                | Json data \<Rightarrow> Json (data\<lparr>belongs_to_collection := Some name\<rparr>))
          else tmdb_details w media_id mt)\<rparr>"

definition cache_deadline :: "ttl_cache \<Rightarrow> rat \<Rightarrow> string \<Rightarrow> rat" where
  \<comment> \<open>the end of the TTL of the entry that a call at time \<open>now\<close> is served from or, on a
      miss, writes: the TTL runs from the write\<close>
  "cache_deadline c now key =
     (case map_of (entries c) key of
        Some (expires, v) \<Rightarrow> if now < expires then expires else now + ttl c
      | None \<Rightarrow> now + ttl c)"

definition valid_categories :: "string list" where
  \<comment> \<open>the categories the request handler lets through\<close>
  "valid_categories = [''movies'', ''tv'', ''youtube'', ''tiktok'']"




definition all_catalogs_fail :: "world \<Rightarrow> bool" where
  "all_catalogs_fail w =
     ((\<forall>params. youtube_search w params = Failure) \<and>
      (\<forall>query mt. tmdb_search w query mt = Failure) \<and>
      (\<forall>media_id mt. tmdb_similar w media_id mt = Failure) \<and>
      (\<forall>with_genres mt. tmdb_discover w with_genres mt = Failure) \<and>
      (\<forall>media_id mt. tmdb_details w media_id mt = Failure) \<and>
      (\<forall>media_id mt. tmdb_title w media_id mt = Failure) \<and>
      (\<forall>media_id mt. tmdb_watch_providers w media_id mt = Failure))"

definition fallback_catalog :: "string \<Rightarrow> string \<Rightarrow> item list" where
  \<comment> \<open>the static list that stands in for the category when no live strategy yields an item\<close>
  "fallback_catalog category query =
     (if category = ''youtube'' then get_mock_youtube_results query
      else if category = ''tiktok'' then get_mock_shorts_results query
      else get_mock_movie_results query category)"

definition fallback_only :: "ttl_cache \<Rightarrow> bool" where
  \<comment> \<open>every entry was written by a request of a valid category that ended in the fallback
      catalog\<close>
  "fallback_only c =
     (\<forall>(k, expires, v) \<in> set (entries c).
        \<exists>category query region.
          category \<in> set valid_categories \<and> k = cache_key category query region \<and>
          mset v = mset (fallback_catalog category query))"



definition batman_fallback :: "item list" where
  \<comment> \<open>the six curated items of the key \<open>batman\<close>, as the fallback builds them for the
      category movies\<close>
  "batman_fallback =
     map (\<lambda>(ttl, video_id).
            \<lparr>item_id = video_id, title = ttl, description = ''Watch the official trailer'',
             thumbnail = ''https://i.ytimg.com/vi/'' @ video_id @ ''/hqdefault.jpg'',
             channel = ''Official Movie Trailers'', published_at = ''2024-01-10T12:00:00Z'',
             platform = ''movies'', url = ''https://www.youtube.com/watch?v='' @ video_id,
             all_platforms = None, rating = None, year = None\<rparr>)
         [(''The Batman Trailer'', ''mqqft2x_Aa4''), (''The Dark Knight Trailer'', ''EXeTwQWrcwY''),
          (''Batman Begins Trailer'', ''neY2xVmOfUM''), (''Joker Trailer'', ''zAGVQLHvwOY''),
          (''Justice League Trailer'', ''3cxixDgHUYw''), (''Superman Man of Steel'', ''T6DJcgm3wNY'')]"

subsection \<open>Concrete settings and worlds\<close>

definition default_settings :: settings where
  "default_settings =
     \<lparr>youtube_api_key = ''yt-key'', tmdb_api_key = ''tmdb-key'',
      database_url = ''sqlite+aiosqlite:///./quickflicks.db'',
      api_timeout = 10, cache_ttl = 180, max_results_per_query = 50\<rparr>"

definition offline :: world where
  \<comment> \<open>every catalog call fails; timestamps do not parse; the random source yields 0\<close>
  "offline =
     \<lparr>youtube_search = (\<lambda>_. Failure), tmdb_search = (\<lambda>_ _. Failure),
      tmdb_similar = (\<lambda>_ _. Failure), tmdb_discover = (\<lambda>_ _. Failure),
      tmdb_details = (\<lambda>_ _. Failure), tmdb_title = (\<lambda>_ _. Failure),
      tmdb_watch_providers = (\<lambda>_ _. Failure), days_old = (\<lambda>_. None), random = (\<lambda>_. 0)\<rparr>"

definition hulu :: provider where
  "hulu = \<lparr>p_platform = ''hulu'', p_url = ''https://www.hulu.com/hub/home''\<rparr>"

definition disney :: provider where
  "disney = \<lparr>p_platform = ''disney'', p_url = ''https://www.disneyplus.com/''\<rparr>"

definition inception_data :: tmdb_data where
  "inception_data =
     \<lparr>crew = Some [(Some ''Producer'', Some ''Emma Thomas''), (Some ''Director'', Some ''Christopher Nolan'')],
      cast_names = Some [''Leonardo DiCaprio'', ''Tom Hardy'', ''Cillian Murphy''],
      genre_names = [''Action'', ''Science Fiction''],
      keywords_keywords = Some [''dream'', ''heist''], keywords_results = None,
      production_companies = [''Warner Bros.'', ''Syncopy''],
      belongs_to_collection = None,
      data_runtime = Some 148, episode_run_time = None,
      data_release_date = ''2010-07-15'', first_air_date = [],
      data_budget = Some 160000000, data_revenue = Some 825000000,
      vote_average = Some (42 / 5)\<rparr>"

definition tenet_data :: tmdb_data where
  "tenet_data =
     \<lparr>crew = Some [(Some ''Director'', Some ''Christopher Nolan'')],
      cast_names = Some [''John David Washington'', ''Robert Pattinson''],
      genre_names = [''Action'', ''Thriller'', ''Science Fiction''],
      keywords_keywords = Some [''time travel'', ''heist''], keywords_results = None,
      production_companies = [''Warner Bros.'', ''Syncopy''],
      belongs_to_collection = None,
      data_runtime = Some 150, episode_run_time = None,
      data_release_date = ''2020-08-22'', first_air_date = [],
      data_budget = Some 205000000, data_revenue = Some 365000000,
      vote_average = Some (36 / 5)\<rparr>"

definition paprika_data :: tmdb_data where
  "paprika_data =
     \<lparr>crew = Some [(Some ''Director'', Some ''Satoshi Kon'')],
      cast_names = Some [''Megumi Hayashibara''],
      genre_names = [''Animation'', ''Science Fiction''],
      keywords_keywords = Some [''dream''], keywords_results = None,
      production_companies = [''Madhouse''],
      belongs_to_collection = None,
      data_runtime = Some 90, episode_run_time = None,
      data_release_date = ''2006-10-01'', first_air_date = [],
      data_budget = None, data_revenue = None,
      vote_average = Some (39 / 5)\<rparr>"

definition tenet_result :: tmdb_result where
  "tenet_result =
     \<lparr>r_id = 577922, r_title = ''Tenet'', r_overview = ''Armed with only one word'',
      r_poster_path = Some ''/tenet.jpg'', r_date = ''2020-08-22'', r_popularity = 60\<rparr>"

definition paprika_result :: tmdb_result where
  "paprika_result =
     \<lparr>r_id = 4977, r_title = ''Paprika'', r_overview = ''A machine to enter dreams'',
      r_poster_path = None, r_date = ''2006-10-01'', r_popularity = 25\<rparr>"

definition inception_result :: tmdb_result where
  "inception_result =
     \<lparr>r_id = 27205, r_title = ''Inception'', r_overview = ''A thief who steals secrets'',
      r_poster_path = Some ''/inception.jpg'', r_date = ''2010-07-15'', r_popularity = 90\<rparr>"

definition cinema :: world where
  \<comment> \<open>a structured catalog that knows three films, both candidates on Netflix; every
      timestamp is older than a year; the random source yields 0.1, then 0.9\<close>
  "cinema =
     offline\<lparr>tmdb_search := (\<lambda>query mt. if query = ''inception'' \<and> mt = Movie
                                         then Json [inception_result] else Json []),
             tmdb_similar := (\<lambda>media_id mt. if media_id = 27205
                                              then Json [paprika_result, tenet_result] else Json []),
             tmdb_details := (\<lambda>media_id mt.
                                if media_id = 27205 then Json inception_data
                                else if media_id = 577922 then Json tenet_data
                                else if media_id = 4977 then Json paprika_data
                                else Failure),
             tmdb_title := (\<lambda>media_id mt. Json None),
             tmdb_watch_providers := (\<lambda>media_id mt. Json \<lparr>flatrate = [8], buy = []\<rparr>),
             days_old := (\<lambda>stamp. Some 4000),
             random := (\<lambda>i. if i = 0 then 1 / 10 else 9 / 10)\<rparr>"

definition twenty_items :: "item list" where
  "twenty_items =
     map (\<lambda>i. mock_item (str_nat i) ''Stored title'' ''Stored description'' ''thumb'' ''NETFLIX''
                 ''2020-01-01'' ''netflix'')
         [0..<20]"

definition warm_cache :: ttl_cache where
  \<comment> \<open>the cache of the default settings holding 20 items for movies, inception, US until
      time 180\<close>
  "warm_cache =
     (recommendation_cache default_settings)
       \<lparr>entries := [(cache_key ''movies'' ''inception'' ''US'', 180, twenty_items)]\<rparr>"

definition saga_source :: details where
  \<comment> \<open>source details that belong to a collection\<close>
  "saga_source =
     extract_details 27205 Movie (inception_data\<lparr>belongs_to_collection := Some (Some ''Dream Saga'')\<rparr>)"


definition netflix :: provider where
  "netflix = \<lparr>p_platform = ''netflix'', p_url = ''https://www.netflix.com/browse''\<rparr>"

definition tenet_card :: item where
  "tenet_card =
     \<lparr>item_id = ''577922'', title = ''Tenet'', description = ''Armed with only one word'',
      thumbnail = ''https://image.tmdb.org/t/p/w500/tenet.jpg'', channel = ''NETFLIX'',
      published_at = ''2020-08-22'', platform = ''netflix'',
      url = ''https://www.netflix.com/browse'', all_platforms = Some [''netflix''],
      rating = Some (36 / 5), year = Some ''2020''\<rparr>"

definition paprika_card :: item where
  "paprika_card =
     \<lparr>item_id = ''4977'', title = ''Paprika'', description = ''A machine to enter dreams'',
      thumbnail = ''https://via.placeholder.com/500x750/831010/ffffff?text=No+Poster'',
      channel = ''NETFLIX'', published_at = ''2006-10-01'', platform = ''netflix'',
      url = ''https://www.netflix.com/browse'', all_platforms = Some [''netflix''],
      rating = Some (39 / 5), year = Some ''2006''\<rparr>"



section \<open>Supporting lemmas\<close>

subsection \<open>Slices and the ranking pass\<close>

lemma length_py_take: "0 \<le> n \<Longrightarrow> length (py_take n xs) \<le> nat n"
  by (simp add: py_take_def)

lemma py_take_is_take: "py_take n xs = take (if 0 \<le> n then nat n else length xs - nat (- n)) xs"
  by (simp add: py_take_def)



lemma set_py_take: "set (py_take n xs) \<subseteq> set xs"
  unfolding py_take_is_take by (rule set_take_subset)

lemma py_take_nonempty: "1 \<le> n \<Longrightarrow> xs \<noteq> [] \<Longrightarrow> py_take n xs \<noteq> []"
  by (cases xs) (auto simp: py_take_def)

lemma mset_score_and_rank: "mset (score_and_rank w xs) = mset xs"
proof -
  let ?ys = "map (\<lambda>(i, result). (rank_score w i result, result)) (enumerate 0 xs)"
  have "map snd (map (\<lambda>(i, result). (rank_score w i result, result)) zs) = map snd zs" for zs
    by (induction zs) auto
  then have e: "map snd ?ys = xs"
    by (simp only: map_snd_enumerate)
  have "mset (map snd (sort_key (\<lambda>(sc, result). - sc) ?ys)) = image_mset snd (mset ?ys)"
    by (simp only: mset_map mset_sort)
  also have "\<dots> = mset (map snd ?ys)"
    by (simp only: mset_map)
  finally show ?thesis
    unfolding e by (simp add: score_and_rank_def)
qed



lemma score_and_rank_sorted:
  "\<exists>ps. score_and_rank w xs = map snd ps \<and>
        mset ps = mset (map (\<lambda>(i, result). (rank_score w i result, result)) (enumerate 0 xs)) \<and>
        sorted (map (\<lambda>(sc, result). - sc) ps)"
proof (cases "xs = []")
  case True
  then have "score_and_rank w xs = map snd [] \<and>
        mset [] = mset (map (\<lambda>(i, result). (rank_score w i result, result)) (enumerate 0 xs)) \<and>
        sorted (map (\<lambda>(sc, result). - sc) ([] :: (rat \<times> item) list))"
    by (simp add: score_and_rank_def)
  then show ?thesis by blast
next
  case False
  let ?ys = "map (\<lambda>(i, result). (rank_score w i result, result)) (enumerate 0 xs)"
  let ?ps = "sort_key (\<lambda>(sc, result). - sc) ?ys"
  from False have "score_and_rank w xs = map snd ?ps"
    by (simp add: score_and_rank_def)
  moreover have "mset ?ps = mset ?ys" by (rule mset_sort)
  moreover have "sorted (map (\<lambda>(sc, result). - sc) ?ps)" by (rule sorted_sort_key)
  ultimately show ?thesis by blast
qed

subsection \<open>The cache\<close>

lemma cache_getitem_cached_value:
  "map_option fst (cache_getitem c now key) = cached_value c now key"
  by (simp add: cache_getitem_def cached_value_def split: option.splits)

lemma cache_contains_cached_value:
  "cache_contains c now key \<longleftrightarrow> cached_value c now key \<noteq> None"
  by (simp add: cache_contains_def cached_value_def split: option.splits)

lemma get_recommendations_hit:
  assumes "cached_value c now (cache_key category q region) = Some stored"
  shows "fst (get_recommendations st w now c category q region limit) = py_take limit stored"
proof -
  from assms obtain c' where "cache_getitem c now (cache_key category q region) = Some (stored, c')"
    using cache_getitem_cached_value [of c now "cache_key category q region"]
    by (cases "cache_getitem c now (cache_key category q region)") auto
  then show ?thesis by (simp add: get_recommendations_def)
qed

lemma get_recommendations_miss:
  assumes "cached_value c now (cache_key category q region) = None"
  shows "get_recommendations st w now c category q region limit =
           (py_take limit (score_and_rank w (pipeline st w category q region)),
            cache_setitem c now (cache_key category q region)
              (score_and_rank w (pipeline st w category q region)))"
proof -
  from assms have "cache_getitem c now (cache_key category q region) = None"
    using cache_getitem_cached_value [of c now "cache_key category q region"]
    by (cases "cache_getitem c now (cache_key category q region)") auto
  then show ?thesis by (simp add: get_recommendations_def Let_def)
qed

lemma map_of_append_fresh:
  "key \<notin> fst ` set kept \<Longrightarrow> map_of (kept @ [(key, v)]) key = Some v"
  by (induction kept) auto

lemma key_not_in_drop: "key \<notin> fst ` set xs \<Longrightarrow> key \<notin> fst ` set (drop n xs)"
  by (auto dest: in_set_dropD)

lemma entries_cache_setitem:
  "\<exists>kept. entries (cache_setitem c now key v) = kept @ [(key, now + ttl c, v)] \<and>
          key \<notin> fst ` set kept \<and> set kept \<subseteq> set (entries c)"
proof -
  let ?live = "filter (\<lambda>(k, expires, _). now < expires) (entries c)"
  show ?thesis
  proof (cases "key \<in> set (map fst ?live)")
    case True
    have "key \<notin> fst ` set (filter (\<lambda>e. fst e \<noteq> key) ?live)" by auto
    moreover have "entries (cache_setitem c now key v) =
        filter (\<lambda>e. fst e \<noteq> key) ?live @ [(key, now + ttl c, v)]"
      using True unfolding cache_setitem_def Let_def by simp
    moreover have "set (filter (\<lambda>e. fst e \<noteq> key) ?live) \<subseteq> set (entries c)" by auto
    ultimately show ?thesis by blast
  next
    case False
    then have "key \<notin> fst ` set (drop (length ?live + 1 - maxsize c) ?live)"
      by (intro key_not_in_drop) simp
    moreover have "entries (cache_setitem c now key v) =
        drop (length ?live + 1 - maxsize c) ?live @ [(key, now + ttl c, v)]"
      using False unfolding cache_setitem_def Let_def by simp
    moreover have "set (drop (length ?live + 1 - maxsize c) ?live) \<subseteq> set (entries c)"
      by (auto dest: in_set_dropD)
    ultimately show ?thesis by blast
  qed
qed

lemma map_of_cache_setitem:
  "map_of (entries (cache_setitem c now key v)) key = Some (now + ttl c, v)"
proof -
  obtain kept where "entries (cache_setitem c now key v) = kept @ [(key, now + ttl c, v)]"
    and "key \<notin> fst ` set kept"
    using entries_cache_setitem [of c now key v] by blast
  then show ?thesis using map_of_append_fresh [of key kept "(now + ttl c, v)"] by simp
qed

lemma cached_value_setitem:
  "t < now + ttl c \<Longrightarrow> cached_value (cache_setitem c now key v) t key = Some v"
  by (simp add: cached_value_def map_of_cache_setitem)

lemma cached_value_fresh_cache [simp]: "cached_value (recommendation_cache st) now key = None"
  by (simp add: cached_value_def recommendation_cache_def TTLCache_def)

lemma cached_value_after_hit:
  assumes "cache_getitem c t1 key = Some (v, c')" and "t1 \<le> t2"
    and "t2 < cache_deadline c t1 key"
  shows "cached_value c' t2 key = Some v"
proof -
  from assms(1) obtain expires where m: "map_of (entries c) key = Some (expires, v)"
    and live: "t1 < expires"
    and c': "c' = c\<lparr>entries := filter (\<lambda>e. fst e \<noteq> key) (entries c) @ [(key, expires, v)]\<rparr>"
    by (auto simp: cache_getitem_def split: option.splits if_splits)
  from m live assms(3) have "t2 < expires"
    by (simp add: cache_deadline_def)
  moreover have "key \<notin> fst ` set (filter (\<lambda>e. fst e \<noteq> key) (entries c))" by auto
  then have "map_of (entries c') key = Some (expires, v)"
    unfolding c' using map_of_append_fresh [of key _ "(expires, v)"] by simp
  ultimately show ?thesis by (simp add: cached_value_def)
qed

lemma cache_getitem_entries:
  assumes "cache_getitem c now key = Some (v, c')"
  shows "set (entries c') \<subseteq> set (entries c) \<and> (\<exists>expires. (key, expires, v) \<in> set (entries c))"
proof -
  from assms obtain expires where m: "map_of (entries c) key = Some (expires, v)"
    and c': "c' = c\<lparr>entries := filter (\<lambda>e. fst e \<noteq> key) (entries c) @ [(key, expires, v)]\<rparr>"
    by (auto simp: cache_getitem_def split: option.splits if_splits)
  from m have "(key, expires, v) \<in> set (entries c)" by (rule map_of_SomeD)
  then show ?thesis unfolding c' by auto
qed

lemma cached_value_entry:
  assumes "cached_value c now key = Some v"
  shows "\<exists>expires. (key, expires, v) \<in> set (entries c)"
proof -
  from assms obtain expires where "map_of (entries c) key = Some (expires, v)"
    by (auto simp: cached_value_def split: option.splits if_splits)
  then have "(key, expires, v) \<in> set (entries c)" by (rule map_of_SomeD)
  then show ?thesis ..
qed

lemma hit_cases:
  assumes "cached_value c now (cache_key category q region) = Some v"
  obtains c' where "get_recommendations st w now c category q region limit = (py_take limit v, c')"
    and "set (entries c') \<subseteq> set (entries c)"
proof -
  from assms obtain c' where g: "cache_getitem c now (cache_key category q region) = Some (v, c')"
    using cache_getitem_cached_value [of c now "cache_key category q region"]
    by (cases "cache_getitem c now (cache_key category q region)") auto
  then have "get_recommendations st w now c category q region limit = (py_take limit v, c')"
    by (simp add: get_recommendations_def)
  moreover from cache_getitem_entries [OF g] have "set (entries c') \<subseteq> set (entries c)" by simp
  ultimately show ?thesis by (rule that)
qed

subsection \<open>The similarity score\<close>

lemma overlap_card: "overlap xs ys = card (set xs \<inter> set ys)"
proof -
  have d: "distinct (filter (\<lambda>x. x \<in> set ys) (remdups xs))" by simp
  have s: "set (filter (\<lambda>x. x \<in> set ys) (remdups xs)) = set xs \<inter> set ys" by auto
  show ?thesis unfolding overlap_def using distinct_card [OF d] s by simp
qed

lemma similarity_score_spec: "similarity_score s c = spec_score s c"
proof -
  have y: "(case (py_int (release_year s), py_int (release_year c)) of
               (Some ys, Some yc) \<Rightarrow> if \<bar>ys - yc\<bar> \<le> 5 then x + 5 else x
             | _ \<Rightarrow> x) = x + year_points s c" for x :: rat
    by (simp add: year_points_def split: option.splits)
  have f: "(if truthy (collection s) \<and> truthy (collection c)
            then (if collection s = collection c then x + 50 else x) else x)
           = x + franchise_points s c" for x :: rat
    by (simp add: franchise_points_def)
  have d: "(if truthy (director s) \<and> truthy (director c)
            then (if director s = director c then x + 30 else x) else x)
           = x + director_points s c" for x :: rat
    by (simp add: director_points_def)
  have b: "(if budget s > 0 \<and> budget c > 0
            then (if (of_int (min (budget s) (budget c)) :: rat) / of_int (max (budget s) (budget c)) > 1 / 2
                  then x + 10 else x) else x)
           = x + budget_points s c" for x :: rat
    by (simp add: budget_points_def)
  have r: "(if runtime s > 0 \<and> runtime c > 0
            then (if \<bar>runtime s - runtime c\<bar> < 30 then x + 5 else x) else x)
           = x + runtime_points s c" for x :: rat
    by (simp add: runtime_points_def)
  have v: "(if d_rating s > 0 \<and> d_rating c > 0
            then (if \<bar>d_rating s - d_rating c\<bar> < 3 / 2 then x + 5 else x) else x)
           = x + rating_points s c" for x :: rat
    by (simp add: rating_points_def)
  have c1: "min (of_nat (overlap (cast s) (cast c)) * 5) 25 = cast_points s c"
    by (simp add: cast_points_def overlap_card mult.commute)
  have c2: "min (of_nat (overlap (genres s) (genres c)) * 10) 20 = genre_points s c"
    by (simp add: genre_points_def overlap_card mult.commute)
  have c3: "min (of_nat (overlap (keyword_names s) (keyword_names c)) * 2) 15 = keyword_points s c"
    by (simp add: keyword_points_def overlap_card mult.commute)
  have c4: "min (of_nat (overlap (companies s) (companies c)) * (15 / 2)) 15 = production_points s c"
    by (simp add: production_points_def overlap_card mult.commute)
  show ?thesis
    unfolding similarity_score_def Let_def y f d b r v c1 c2 c3 c4 spec_score_def
    by (simp only: add_0 add.assoc)
qed












lemma other_points_collection:
  "director_points s (c\<lparr>collection := v\<rparr>) = director_points s c"
  "cast_points s (c\<lparr>collection := v\<rparr>) = cast_points s c"
  "genre_points s (c\<lparr>collection := v\<rparr>) = genre_points s c"
  "keyword_points s (c\<lparr>collection := v\<rparr>) = keyword_points s c"
  "production_points s (c\<lparr>collection := v\<rparr>) = production_points s c"
  "budget_points s (c\<lparr>collection := v\<rparr>) = budget_points s c"
  "runtime_points s (c\<lparr>collection := v\<rparr>) = runtime_points s c"
  "rating_points s (c\<lparr>collection := v\<rparr>) = rating_points s c"
  "year_points s (c\<lparr>collection := v\<rparr>) = year_points s c"
  by (simp_all add: director_points_def cast_points_def genre_points_def keyword_points_def
      production_points_def budget_points_def runtime_points_def rating_points_def
      year_points_def split: option.splits)

lemma franchise_points_gain:
  assumes "truthy (collection s)"
    and "\<not> (truthy (collection c) \<and> collection c = collection s)"
  shows "franchise_points s (c\<lparr>collection := collection s\<rparr>) = franchise_points s c + 50"
  using assms by (auto simp: franchise_points_def)

lemma franchise_step:
  assumes "truthy (collection s)"
    and "\<not> (truthy (collection c) \<and> collection c = collection s)"
  shows "similarity_score s (c\<lparr>collection := collection s\<rparr>) = similarity_score s c + 50"
  unfolding similarity_score_spec spec_score_def other_points_collection
    franchise_points_gain [OF assms]
  by simp




lemma extract_details_collection:
  "extract_details k Movie (data\<lparr>belongs_to_collection := Some name\<rparr>)
     = (extract_details k Movie data)\<lparr>collection := name\<rparr>"
  by (simp add: extract_details_def)

lemma get_tmdb_details_with_franchise:
  assumes "get_tmdb_details w k Movie = Some d"
  shows "get_tmdb_details (with_franchise w k name) k Movie = Some (d\<lparr>collection := name\<rparr>)"
  using assms
  by (cases "tmdb_details w k Movie")
     (auto simp: get_tmdb_details_def with_franchise_def extract_details_collection)

lemma get_tmdb_details_with_franchise_other:
  "i \<noteq> k \<Longrightarrow> get_tmdb_details (with_franchise w k name) i mt = get_tmdb_details w i mt"
  by (simp add: get_tmdb_details_def with_franchise_def)

subsection \<open>The primary platform\<close>

lemma first_with_platform_name:
  "first_with_platform name platforms = Some p \<Longrightarrow> p_platform p = name"
  by (induction platforms) (auto split: if_splits)

lemma choose_primary_netflix_or_first:
  assumes "p_platform p0 \<in> set platform_priority"
  shows "choose_primary p0 ps
           = (case first_with_platform ''netflix'' (p0 # ps) of Some p \<Rightarrow> p | None \<Rightarrow> p0)"
proof -
  have step: "priority_loop (name # rest) platforms primary
       = (let primary' = (case first_with_platform name platforms of Some p \<Rightarrow> p | None \<Rightarrow> primary)
          in if p_platform primary' \<in> set platform_priority then primary'
             else priority_loop rest platforms primary')" for name rest platforms primary
    by simp
  have nf: "''netflix'' \<in> set platform_priority" by (simp add: platform_priority_def)
  obtain rest where pp: "platform_priority = ''netflix'' # rest"
    by (simp add: platform_priority_def)
  show ?thesis
  proof (cases "first_with_platform ''netflix'' (p0 # ps)")
    case None
    with assms show ?thesis
      unfolding choose_primary_def by (subst pp, subst step) (simp add: Let_def)
  next
    case (Some p)
    from first_with_platform_name [OF Some] nf have "p_platform p \<in> set platform_priority" by simp
    with Some show ?thesis
      unfolding choose_primary_def by (subst pp, subst step) (simp add: Let_def)
  qed
qed

subsection \<open>Printing integers is injective\<close>








subsection \<open>Identifiers of the fallback lists\<close>

lemma mock_youtube_ids:
  "map item_id (get_mock_youtube_results q)
     = [''jk7GA4EZZrw'', ''h4T_LlK1VE4'', ''IxkSlnrRFqc'', ''TUXpoM9OY3M'', ''5iPH-br_eJQ'',
        ''jHbyQ_AQP8c'', ''rf0Lsjewg8c'', ''jG7dSXcfVqE'']"
  by (simp add: get_mock_youtube_results_def mock_youtube_videos_def mock_item_def)

lemma mock_shorts_ids:
  "map item_id (get_mock_shorts_results q)
     = [''nXA_f0xBSjw'', ''8VGF-rQqF7Q'', ''2g6J6vT5mBU'', ''J---aiyznGQ'', ''0FTw0UHb3vw'',
        ''dQw4w9WgXcQ'', ''9bZkp7q19f0'', ''K5le9sYdYkM'', ''YbJOTdZBX1g'', ''2Vv-BfVoq4g'']"
  by (simp add: get_mock_shorts_results_def mock_shorts_def mock_item_def)



lemma partial_match_cases:
  "partial_match ql recs \<in> set (default_trailers # map snd recs)"
proof (induction recs)
  case Nil
  show ?case by simp
next
  case (Cons rec recs)
  obtain key vids where rec: "rec = (key, vids)" by (cases rec)
  from Cons have "partial_match ql recs = default_trailers \<or> partial_match ql recs \<in> snd ` set recs"
    by simp
  then show ?case unfolding rec by (auto simp: image_iff)
qed

lemma select_videos_cases:
  "select_videos q \<in> set (default_trailers # map snd movie_recommendations)"
proof (cases "map_of movie_recommendations (lower q)")
  case None
  then show ?thesis
    using partial_match_cases [of "lower q" movie_recommendations]
    by (simp add: select_videos_def Let_def)
next
  case (Some videos)
  then have "(lower q, videos) \<in> set movie_recommendations" by (rule map_of_SomeD)
  then have "videos \<in> set (map snd movie_recommendations)" by force
  with Some show ?thesis by (simp add: select_videos_def Let_def)
qed

lemma trailer_lists_distinct:
  "vids \<in> set (default_trailers # map snd movie_recommendations) \<Longrightarrow>
     distinct (map (\<lambda>(ttl, video_id, thumb). video_id) vids) \<and> length vids = 6"
  by (auto simp: default_trailers_def movie_recommendations_def)



lemma length_mock_movies: "length (get_mock_movie_results q category) = 6"
  using trailer_lists_distinct [OF select_videos_cases, of q]
  by (simp add: get_mock_movie_results_def)

subsection \<open>Every strategy yields distinct identifiers\<close>





















subsection \<open>When every catalog call fails\<close>

lemma youtube_all_fail:
  "all_catalogs_fail w \<Longrightarrow> get_youtube_recommendations st w q region = get_mock_youtube_results q"
  by (simp add: get_youtube_recommendations_def all_catalogs_fail_def)

lemma tiktok_all_fail:
  "all_catalogs_fail w \<Longrightarrow> get_tiktok_style_recommendations w q region = get_mock_shorts_results q"
  by (simp add: get_tiktok_style_recommendations_def tiktok_search_def all_catalogs_fail_def)

lemma movies_all_fail:
  assumes "all_catalogs_fail w"
  shows "get_movie_recommendations w q region category = get_mock_movie_results q category"
proof -
  from assms have "search_tmdb w q mt = None" for mt
    by (simp add: search_tmdb_def all_catalogs_fail_def)
  moreover from assms have "search_youtube_content w query r cat n = []" for query r cat n
    by (simp add: search_youtube_content_def all_catalogs_fail_def)
  ultimately have "find_similar_shows w q category = []"
    by (simp add: find_similar_shows_def Let_def)
  then show ?thesis by (simp add: get_movie_recommendations_def)
qed

lemma pipeline_all_fail:
  assumes "all_catalogs_fail w" and "category \<in> set valid_categories"
  shows "pipeline st w category q region = fallback_catalog category q"
  using assms(2) youtube_all_fail [OF assms(1)] tiktok_all_fail [OF assms(1)]
    movies_all_fail [OF assms(1)]
  by (auto simp: pipeline_def fallback_catalog_def valid_categories_def)

lemma fallback_nonempty: "fallback_catalog category q \<noteq> []"
proof -
  have "get_mock_youtube_results q \<noteq> []"
    using arg_cong [OF mock_youtube_ids [of q], of length] by auto
  moreover have "get_mock_shorts_results q \<noteq> []"
    using arg_cong [OF mock_shorts_ids [of q], of length] by auto
  moreover have "get_mock_movie_results q category \<noteq> []"
    using length_mock_movies [of q category] by auto
  ultimately show ?thesis by (simp add: fallback_catalog_def)
qed

lemma key_category:
  assumes "category \<in> set valid_categories" and "category' \<in> set valid_categories"
    and "cache_key category q region = cache_key category' q' region'"
  shows "category = category'"
  using assms by (auto simp: valid_categories_def cache_key_def)

lemma batman_split:
  assumes "q' @ '':'' @ region' = ''batman:US''"
  shows "q' = ''batman''"
  using assms by (auto simp: append_eq_Cons_conv)

lemma key_batman:
  assumes "category' \<in> set valid_categories"
    and "cache_key category' q' region' = ''movies:batman:US''"
  shows "category' = ''movies'' \<and> q' = ''batman''"
proof -
  from assms have c: "category' = ''movies''"
    by (auto simp: valid_categories_def cache_key_def)
  with assms(2) have "q' @ '':'' @ region' = ''batman:US''"
    by (simp add: cache_key_def)
  then have "q' = ''batman''" by (rule batman_split)
  with c show ?thesis by simp
qed

lemma batman_list: "get_mock_movie_results ''batman'' ''movies'' = batman_fallback"
  by (simp add: get_mock_movie_results_def select_videos_def lower_def lower_char_def
      movie_recommendations_def mock_item_def batman_fallback_def)

lemma fallback_only_setitem:
  assumes "fallback_only c" and "category \<in> set valid_categories"
    and "mset v = mset (fallback_catalog category q)"
  shows "fallback_only (cache_setitem c now (cache_key category q region) v)"
proof -
  obtain kept where e: "entries (cache_setitem c now (cache_key category q region) v)
                          = kept @ [(cache_key category q region, now + ttl c, v)]"
    and sub: "set kept \<subseteq> set (entries c)"
    using entries_cache_setitem [of c now "cache_key category q region" v] by blast
  have new: "\<exists>category' query region'.
               category' \<in> set valid_categories \<and>
               cache_key category q region = cache_key category' query region' \<and>
               mset v = mset (fallback_catalog category' query)"
    using assms(2,3) by blast
  from assms(1) sub new show ?thesis
    unfolding fallback_only_def e by auto
qed

lemma fallback_only_subset:
  "fallback_only c \<Longrightarrow> set (entries c') \<subseteq> set (entries c) \<Longrightarrow> fallback_only c'"
  unfolding fallback_only_def by blast

lemma fallback_only_entry:
  assumes "fallback_only c" and "cached_value c now (cache_key category q region) = Some v"
    and "category \<in> set valid_categories"
  shows "\<exists>query. mset v = mset (fallback_catalog category query)"
proof -
  from cached_value_entry [OF assms(2)] obtain expires
    where "(cache_key category q region, expires, v) \<in> set (entries c)" ..
  with assms(1) obtain category' query region'
    where v: "category' \<in> set valid_categories"
      and k: "cache_key category q region = cache_key category' query region'"
      and m: "mset v = mset (fallback_catalog category' query)"
    unfolding fallback_only_def by fastforce
  from key_category [OF assms(3) v k] m show ?thesis by blast
qed

lemma fallback_only_batman:
  assumes "fallback_only c" and "cached_value c now (cache_key ''movies'' ''batman'' ''US'') = Some v"
  shows "mset v = mset batman_fallback"
proof -
  from cached_value_entry [OF assms(2)] obtain expires
    where "(cache_key ''movies'' ''batman'' ''US'', expires, v) \<in> set (entries c)" ..
  with assms(1) obtain category' query region'
    where v: "category' \<in> set valid_categories"
      and k: "cache_key ''movies'' ''batman'' ''US'' = cache_key category' query region'"
      and m: "mset v = mset (fallback_catalog category' query)"
    unfolding fallback_only_def by fastforce
  from k have "cache_key category' query region' = ''movies:batman:US''"
    by (simp add: cache_key_def)
  from key_batman [OF v this] m show ?thesis
    by (simp add: fallback_catalog_def batman_list)
qed

subsection \<open>Evaluating the concrete worlds\<close>

lemma cinema_details:
  "get_tmdb_details cinema 27205 Movie = Some (extract_details 27205 Movie inception_data)"
  "get_tmdb_details cinema 577922 Movie = Some (extract_details 577922 Movie tenet_data)"
  "get_tmdb_details cinema 4977 Movie = Some (extract_details 4977 Movie paprika_data)"
  "get_tmdb_details cinema 999 Movie = None"
  by (simp_all add: get_tmdb_details_def cinema_def)

lemma tenet_score:
  "similarity_score (extract_details 27205 Movie inception_data)
     (extract_details 577922 Movie tenet_data) = 87"
  by code_simp

lemma paprika_score:
  "similarity_score (extract_details 27205 Movie inception_data)
     (extract_details 4977 Movie paprika_data) = 22"
  by code_simp

lemma cinema_search:
  "search_tmdb cinema ''inception'' Movie
     = Some \<lparr>c_id = 27205, c_title = ''Inception'', c_overview = ''A thief who steals secrets'',
             c_poster_url = ''https://image.tmdb.org/t/p/w500/inception.jpg'',
             c_release_date = ''2010-07-15'', c_popularity = None, c_score = None\<rparr>"
  by (simp add: search_tmdb_def cinema_def inception_result_def poster_url_def)

lemma cinema_similar:
  "get_tmdb_similar cinema 27205 Movie
     = [popular_candidate tenet_result, popular_candidate paprika_result]"
  by (simp add: get_tmdb_similar_def cinema_def popularity_key_def popular_candidate_def
      tenet_result_def paprika_result_def)

lemma cinema_candidates:
  "get_tmdb_recommendations_multi_strategy cinema 27205 Movie
     (extract_details 27205 Movie inception_data)
     = [popular_candidate tenet_result, popular_candidate paprika_result]"
proof -
  have g: "genres (extract_details 27205 Movie inception_data) \<noteq> []"
    by (simp add: extract_details_def inception_data_def)
  have d: "tmdb_discover cinema x Movie = Failure" for x
    by (simp add: cinema_def offline_def)
  have ids: "c_id (popular_candidate tenet_result) = 577922"
    "c_id (popular_candidate paprika_result) = 4977"
    by (simp_all add: popular_candidate_def tenet_result_def paprika_result_def)
  show ?thesis
    unfolding get_tmdb_recommendations_multi_strategy_def Let_def cinema_similar
    using g by (simp add: d ids)
qed

lemma cinema_scored:
  "score_recommendations cinema (extract_details 27205 Movie inception_data)
     [popular_candidate tenet_result, popular_candidate paprika_result] Movie
     = [(popular_candidate tenet_result)\<lparr>c_score := Some 87\<rparr>,
        (popular_candidate paprika_result)\<lparr>c_score := Some 22\<rparr>]"
proof -
  have ids: "c_id (popular_candidate tenet_result) = 577922"
    "c_id (popular_candidate paprika_result) = 4977"
    by (simp_all add: popular_candidate_def tenet_result_def paprika_result_def)
  have src: "details_id (extract_details 27205 Movie inception_data) = 27205"
    by (simp add: extract_details_def)
  have a: "score_candidate cinema (extract_details 27205 Movie inception_data) Movie
             (popular_candidate tenet_result)
           = Some ((popular_candidate tenet_result)\<lparr>c_score := Some 87\<rparr>)"
    by (simp add: score_candidate_def ids src cinema_details tenet_score)
  have b: "score_candidate cinema (extract_details 27205 Movie inception_data) Movie
             (popular_candidate paprika_result)
           = Some ((popular_candidate paprika_result)\<lparr>c_score := Some 22\<rparr>)"
    by (simp add: score_candidate_def ids src cinema_details paprika_score)
  show ?thesis
    unfolding score_recommendations_def Let_def
    by (simp add: a b score_key_def)
qed

lemma cinema_providers: "get_tmdb_watch_providers cinema k Movie = [netflix]"
  by (simp add: get_tmdb_watch_providers_def cinema_def mapped_providers_def provider_mapping_def
      List.map_filter_simps construct_platform_url_def netflix_def)

lemma choose_netflix: "choose_primary netflix [] = netflix"
  by (simp add: choose_primary_def platform_priority_def netflix_def)

lemma str_int_ids: "str_int 577922 = ''577922''" "str_int 4977 = ''4977''"
  by (simp_all add: str_int_def str_nat.simps digit_char_def)

lemma round_ratings: "py_round1 (36 / 5) = 36 / 5" "py_round1 (39 / 5) = 39 / 5"
  by (simp_all add: py_round1_def Let_def)

lemma upper_netflix: "upper ''netflix'' = ''NETFLIX''"
  by (simp add: upper_def upper_char_def)

lemma tenet_make_card:
  "make_card cinema Movie ((popular_candidate tenet_result)\<lparr>c_score := Some 87\<rparr>) netflix []
     = tenet_card"
  unfolding make_card_def Let_def choose_netflix
  by (simp add: popular_candidate_def tenet_result_def cinema_details str_int_ids
      extract_details_def tenet_data_def round_ratings upper_netflix netflix_def tenet_card_def
      poster_url_def)

lemma paprika_make_card:
  "make_card cinema Movie ((popular_candidate paprika_result)\<lparr>c_score := Some 22\<rparr>) netflix []
     = paprika_card"
  unfolding make_card_def Let_def choose_netflix
  by (simp add: popular_candidate_def paprika_result_def cinema_details str_int_ids
      extract_details_def paprika_data_def round_ratings upper_netflix netflix_def paprika_card_def
      poster_url_def)

lemma cinema_similar_shows:
  "find_similar_shows cinema ''inception'' ''movies'' = [tenet_card, paprika_card]"
  unfolding find_similar_shows_def Let_def
  by (simp add: cinema_search cinema_details cinema_candidates cinema_scored cinema_providers
      tenet_make_card paprika_make_card)

lemma cinema_movies:
  "get_movie_recommendations cinema ''inception'' ''US'' ''movies'' = [tenet_card, paprika_card]"
  by (simp add: get_movie_recommendations_def cinema_similar_shows)

lemma cinema_ranked:
  "score_and_rank cinema [tenet_card, paprika_card] = [paprika_card, tenet_card]"
  by (simp add: score_and_rank_def enumerate_eq_zip rank_score_def cinema_def
      tenet_card_def paprika_card_def Let_def)




lemma offline_fails: "all_catalogs_fail offline"
  by (simp add: all_catalogs_fail_def offline_def)

lemma fallback_only_fresh: "fallback_only (recommendation_cache st)"
  by (simp add: fallback_only_def recommendation_cache_def TTLCache_def)

section \<open>Claims\<close>




text \<open>
  C2. When every catalog call fails, a request of a valid category with a limit of at least
  1 returns a non-empty list of at most \<open>limit\<close> items, all drawn from the static fallback
  catalog of the category. This holds on a cache miss, where the pipeline runs into the
  fallback, and on a hit of a cache filled by such requests, a state that every such request
  keeps. For batman, movies, US and limit 6 the response consists of exactly the six curated
  batman items (the ranking pass decides their order), each with the platform tag movies.
\<close>

theorem fallback_when_catalogs_fail:
  assumes "all_catalogs_fail w" and "category \<in> set valid_categories" and "1 \<le> limit"
    and "fallback_only c \<or> cached_value c now (cache_key category q region) = None"
  shows "fst (get_recommendations st w now c category q region limit) \<noteq> [] \<and>
         length (fst (get_recommendations st w now c category q region limit)) \<le> nat limit \<and>
         (\<exists>query. set (fst (get_recommendations st w now c category q region limit))
                    \<subseteq> set (fallback_catalog category query)) \<and>
         (cached_value c now (cache_key category q region) = None \<longrightarrow>
            set (fst (get_recommendations st w now c category q region limit))
              \<subseteq> set (fallback_catalog category q)) \<and>
         (fallback_only c \<longrightarrow>
            fallback_only (snd (get_recommendations st w now c category q region limit))) \<and>
         (category = ''movies'' \<and> q = ''batman'' \<and> region = ''US'' \<and> limit = 6 \<longrightarrow>
            mset (fst (get_recommendations st w now c category q region limit))
              = mset batman_fallback \<and>
            map platform (fst (get_recommendations st w now c category q region limit))
              = replicate 6 ''movies'')"
proof -
  let ?R = "get_recommendations st w now c category q region limit"
  from assms(3) have lim: "0 \<le> limit" by simp
  have "\<exists>v query. fst ?R = py_take limit v \<and> mset v = mset (fallback_catalog category query) \<and>
          (cached_value c now (cache_key category q region) = None \<longrightarrow> query = q) \<and>
          (fallback_only c \<longrightarrow> fallback_only (snd ?R)) \<and>
          (category = ''movies'' \<and> q = ''batman'' \<and> region = ''US'' \<longrightarrow> mset v = mset batman_fallback)"
  proof (cases "cached_value c now (cache_key category q region)")
    case None
    let ?v = "score_and_rank w (pipeline st w category q region)"
    have m: "mset ?v = mset (fallback_catalog category q)"
      by (simp add: mset_score_and_rank pipeline_all_fail [OF assms(1,2)])
    have inv: "fallback_only c \<longrightarrow> fallback_only (snd ?R)"
      unfolding get_recommendations_miss [OF None]
      using fallback_only_setitem [OF _ assms(2) m] by simp
    have bat: "category = ''movies'' \<and> q = ''batman'' \<and> region = ''US'' \<longrightarrow> mset ?v = mset batman_fallback"
      using m by (auto simp: fallback_catalog_def batman_list)
    have "fst ?R = py_take limit ?v"
      by (simp add: get_recommendations_miss [OF None])
    with m inv bat show ?thesis by blast
  next
    case (Some v)
    with assms(4) have fo: "fallback_only c" by simp
    from fallback_only_entry [OF fo Some assms(2)] obtain query
      where m: "mset v = mset (fallback_catalog category query)" ..
    from Some obtain c' where r: "?R = (py_take limit v, c')"
      and sub: "set (entries c') \<subseteq> set (entries c)"
      by (rule hit_cases)
    from fo sub have inv: "fallback_only (snd ?R)"
      unfolding r by (simp add: fallback_only_subset)
    have bat: "category = ''movies'' \<and> q = ''batman'' \<and> region = ''US'' \<longrightarrow> mset v = mset batman_fallback"
      using fallback_only_batman [OF fo] Some by auto
    from r m inv bat Some show ?thesis by auto
  qed
  then obtain v query where r: "fst ?R = py_take limit v"
    and m: "mset v = mset (fallback_catalog category query)"
    and qq: "cached_value c now (cache_key category q region) = None \<longrightarrow> query = q"
    and inv: "fallback_only c \<longrightarrow> fallback_only (snd ?R)"
    and bat: "category = ''movies'' \<and> q = ''batman'' \<and> region = ''US'' \<longrightarrow> mset v = mset batman_fallback"
    by (elim exE conjE) (rule that; assumption)
  from m have sv: "set v = set (fallback_catalog category query)" by (rule mset_eq_setD)
  from m fallback_nonempty [of category query] have "v \<noteq> []" by auto
  with assms(3) have ne: "fst ?R \<noteq> []"
    unfolding r by (intro py_take_nonempty)
  have len: "length (fst ?R) \<le> nat limit"
    unfolding r by (rule length_py_take [OF lim])
  have sub: "set (fst ?R) \<subseteq> set (fallback_catalog category query)"
    unfolding r using set_py_take [of limit v] sv by simp
  have batman: "mset (fst ?R) = mset batman_fallback \<and> map platform (fst ?R) = replicate 6 ''movies''"
    if b: "category = ''movies'' \<and> q = ''batman'' \<and> region = ''US'' \<and> limit = 6"
  proof -
    from b bat have mv: "mset v = mset batman_fallback" by simp
    then have "length v = 6"
      using mset_eq_length [OF mv] by (simp add: batman_fallback_def)
    with b have full: "fst ?R = v" unfolding r by (simp add: py_take_def)
    from mv have "set v = set batman_fallback" by (rule mset_eq_setD)
    then have "\<forall>x \<in> set v. platform x = ''movies''"
      by (simp add: batman_fallback_def)
    then have "map platform v = replicate (length v) ''movies''"
      by (induction v) auto
    with \<open>length v = 6\<close> mv full show ?thesis by simp
  qed
  from ne len sub qq inv batman show ?thesis by blast
qed

theorem fallback_when_catalogs_fail_witness:
  "all_catalogs_fail offline \<and> ''movies'' \<in> set valid_categories \<and> (1::int) \<le> 6 \<and>
   fallback_only (recommendation_cache default_settings) \<and>
   fst (get_recommendations default_settings offline 0 (recommendation_cache default_settings)
          ''movies'' ''batman'' ''US'' 6) \<noteq> [] \<and>
   length (fst (get_recommendations default_settings offline 0 (recommendation_cache default_settings)
                  ''movies'' ''batman'' ''US'' 6)) \<le> nat 6 \<and>
   mset (fst (get_recommendations default_settings offline 0 (recommendation_cache default_settings)
                ''movies'' ''batman'' ''US'' 6)) = mset batman_fallback \<and>
   map platform (fst (get_recommendations default_settings offline 0
                        (recommendation_cache default_settings) ''movies'' ''batman'' ''US'' 6))
     = replicate 6 ''movies'' \<and>
   fallback_only (snd (get_recommendations default_settings offline 0
                         (recommendation_cache default_settings) ''movies'' ''batman'' ''US'' 6)) \<and>
   mset (fst (get_recommendations default_settings offline 100
                (snd (get_recommendations default_settings offline 0
                        (recommendation_cache default_settings) ''movies'' ''batman'' ''US'' 6))
                ''movies'' ''batman'' ''US'' 6)) = mset batman_fallback"
proof -
  note h1 = offline_fails
  have h2: "''movies'' \<in> set valid_categories" by (simp add: valid_categories_def)
  have h3: "(1::int) \<le> 6" by simp
  have h4: "fallback_only (recommendation_cache default_settings)" by (rule fallback_only_fresh)
  note first = fallback_when_catalogs_fail
      [where w = offline and category = "''movies''" and limit = 6
         and c = "recommendation_cache default_settings" and now = 0 and q = "''batman''"
         and region = "''US''" and st = default_settings, OF h1 h2 h3 disjI1 [OF h4]]
  from first h4 have h5: "fallback_only (snd (get_recommendations default_settings offline 0
                         (recommendation_cache default_settings) ''movies'' ''batman'' ''US'' 6))"
    by blast
  note second = fallback_when_catalogs_fail
      [where w = offline and category = "''movies''" and limit = 6
         and c = "snd (get_recommendations default_settings offline 0
                         (recommendation_cache default_settings) ''movies'' ''batman'' ''US'' 6)"
         and now = 100 and q = "''batman''"
         and region = "''US''" and st = default_settings, OF h1 h2 h3 disjI1 [OF h5]]
  from first have a: "fst (get_recommendations default_settings offline 0
          (recommendation_cache default_settings) ''movies'' ''batman'' ''US'' 6) \<noteq> []"
    and b: "length (fst (get_recommendations default_settings offline 0
                  (recommendation_cache default_settings) ''movies'' ''batman'' ''US'' 6)) \<le> nat 6"
    and c: "mset (fst (get_recommendations default_settings offline 0
                (recommendation_cache default_settings) ''movies'' ''batman'' ''US'' 6))
              = mset batman_fallback"
    and d: "map platform (fst (get_recommendations default_settings offline 0
                        (recommendation_cache default_settings) ''movies'' ''batman'' ''US'' 6))
     = replicate 6 ''movies''"
    by blast+
  from second have e: "mset (fst (get_recommendations default_settings offline 100
                (snd (get_recommendations default_settings offline 0
                        (recommendation_cache default_settings) ''movies'' ''batman'' ''US'' 6))
                ''movies'' ''batman'' ''US'' 6)) = mset batman_fallback"
    by blast
  from h1 h2 h3 h4 a b c d h5 e show ?thesis by (intro conjI)
qed

text \<open>
  C3 as the code has it. The ranking pass is the last step for every category, structured
  media included: on a cache miss the list cached and returned for movies and tv is the
  pipeline's similarity-ordered list after \<open>_score_and_rank\<close>, that is a permutation of it
  in descending order of the recency-plus-random scores of its items.
\<close>

theorem ranking_pass_every_category:
  assumes "cached_value c now (cache_key category q region) = None"
    and "category \<in> set [''movies'', ''tv'']"
  shows "fst (get_recommendations st w now c category q region limit)
           = py_take limit (score_and_rank w (get_movie_recommendations w q region category)) \<and>
         map_of (entries (snd (get_recommendations st w now c category q region limit)))
             (cache_key category q region)
           = Some (now + ttl c, score_and_rank w (get_movie_recommendations w q region category)) \<and>
         mset (score_and_rank w (get_movie_recommendations w q region category))
           = mset (get_movie_recommendations w q region category) \<and>
         (\<exists>ps. score_and_rank w (get_movie_recommendations w q region category) = map snd ps \<and>
               mset ps = mset (map (\<lambda>(i, result). (rank_score w i result, result))
                                (enumerate 0 (get_movie_recommendations w q region category))) \<and>
               sorted (map (\<lambda>(sc, result). - sc) ps))"
proof -
  from assms(2) have "pipeline st w category q region = get_movie_recommendations w q region category"
    by (auto simp: pipeline_def)
  then have "fst (get_recommendations st w now c category q region limit)
           = py_take limit (score_and_rank w (get_movie_recommendations w q region category)) \<and>
         map_of (entries (snd (get_recommendations st w now c category q region limit)))
             (cache_key category q region)
           = Some (now + ttl c, score_and_rank w (get_movie_recommendations w q region category)) \<and>
         mset (score_and_rank w (get_movie_recommendations w q region category))
           = mset (get_movie_recommendations w q region category)"
    by (simp add: get_recommendations_miss [OF assms(1)] map_of_cache_setitem mset_score_and_rank)
  with score_and_rank_sorted [of w "get_movie_recommendations w q region category"]
  show ?thesis by (simp only: simp_thms)
qed

theorem ranking_pass_every_category_witness:
  "cached_value (recommendation_cache default_settings) 0 (cache_key ''movies'' ''inception'' ''US'') = None \<and>
   ''movies'' \<in> set [''movies'', ''tv''] \<and>
   fst (get_recommendations default_settings cinema 0
          (recommendation_cache default_settings) ''movies'' ''inception'' ''US'' 20)
     = [paprika_card, tenet_card]"
proof -
  have h1: "cached_value (recommendation_cache default_settings) 0
              (cache_key ''movies'' ''inception'' ''US'') = None"
    by simp
  have h2: "''movies'' \<in> set [''movies'', ''tv'']" by simp
  from ranking_pass_every_category [OF h1 h2, of default_settings cinema 20, THEN conjunct1]
  have "fst (get_recommendations default_settings cinema 0
          (recommendation_cache default_settings) ''movies'' ''inception'' ''US'' 20)
     = [paprika_card, tenet_card]"
    by (simp add: cinema_movies cinema_ranked py_take_def)
  with h1 h2 show ?thesis by (intro conjI)
qed

text \<open>
  The claim C3 as stated fails: in the catalog \<open>cinema\<close> the similarity order of the two
  candidates is Tenet (87 points), Paprika (22 points), and this is the order of the
  structured pipeline; the response lists Paprika first.
\<close>

theorem ranking_pass_reorders_movies:
  "score_recommendations cinema (extract_details 27205 Movie inception_data)
     (get_tmdb_recommendations_multi_strategy cinema 27205 Movie
        (extract_details 27205 Movie inception_data)) Movie
     = [(popular_candidate tenet_result)\<lparr>c_score := Some 87\<rparr>,
        (popular_candidate paprika_result)\<lparr>c_score := Some 22\<rparr>] \<and>
   get_movie_recommendations cinema ''inception'' ''US'' ''movies'' = [tenet_card, paprika_card] \<and>
   fst (get_recommendations default_settings cinema 0
          (recommendation_cache default_settings) ''movies'' ''inception'' ''US'' 20)
     = [paprika_card, tenet_card] \<and>
   fst (get_recommendations default_settings cinema 0
          (recommendation_cache default_settings) ''movies'' ''inception'' ''US'' 20)
     \<noteq> py_take 20 (get_movie_recommendations cinema ''inception'' ''US'' ''movies'')"
proof -
  have a: "score_recommendations cinema (extract_details 27205 Movie inception_data)
     (get_tmdb_recommendations_multi_strategy cinema 27205 Movie
        (extract_details 27205 Movie inception_data)) Movie
     = [(popular_candidate tenet_result)\<lparr>c_score := Some 87\<rparr>,
        (popular_candidate paprika_result)\<lparr>c_score := Some 22\<rparr>]"
    by (simp only: cinema_candidates cinema_scored)
  have miss: "cached_value (recommendation_cache default_settings) 0
              (cache_key ''movies'' ''inception'' ''US'') = None"
    by simp
  have p: "pipeline default_settings cinema ''movies'' ''inception'' ''US'' = [tenet_card, paprika_card]"
    by (simp add: pipeline_def cinema_movies)
  have b: "fst (get_recommendations default_settings cinema 0
          (recommendation_cache default_settings) ''movies'' ''inception'' ''US'' 20)
     = [paprika_card, tenet_card]"
    unfolding get_recommendations_miss [OF miss] p cinema_ranked
    by (simp add: py_take_def)
  have ne: "paprika_card \<noteq> tenet_card"
    by (simp add: paprika_card_def tenet_card_def)
  have c: "fst (get_recommendations default_settings cinema 0
          (recommendation_cache default_settings) ''movies'' ''inception'' ''US'' 20)
     \<noteq> py_take 20 (get_movie_recommendations cinema ''inception'' ''US'' ''movies'')"
    unfolding b cinema_movies using ne by (simp add: py_take_def)
  from a cinema_movies b c show ?thesis by (intro conjI)
qed

text \<open>
  C4 at an input where the code leaves the priority order. Every platform the client maps
  belongs to the priority list, so the loops stop after the first priority name: the primary
  platform is netflix when netflix is in the list and the first element otherwise
  (\<open>choose_primary_netflix_or_first\<close>). For the platform list hulu, disney the card gets
  hulu; the first name of the priority order that occurs in the list is disney.
\<close>

theorem primary_platform_hulu_before_disney:
  "choose_primary hulu [disney] = hulu \<and> spec_primary hulu [disney] = disney"
  by (simp add: choose_primary_def spec_primary_def platform_priority_def hulu_def disney_def)



text \<open>
  C6. Two consecutive calls with the same arguments return the same ordered list when the
  second is made before the TTL of the cache entry of the first has run out: \<open>ttl\<close> after the
  first call when that call missed and wrote the entry, and the expiry of the entry it was
  served from when it hit. The second call is served from the cache: its result depends
  neither on the catalogs nor on the random source.
\<close>

theorem repeat_within_ttl_identical:
  assumes "t1 \<le> t2"
    and "t2 < cache_deadline c t1 (cache_key category q region)"
  shows "fst (get_recommendations st2 w2 t2
                (snd (get_recommendations st w t1 c category q region limit))
                category q region limit)
         = fst (get_recommendations st w t1 c category q region limit)"
proof (cases "cache_getitem c t1 (cache_key category q region)")
  case None
  then have miss: "cached_value c t1 (cache_key category q region) = None"
    using cache_getitem_cached_value [of c t1 "cache_key category q region"] by simp
  then have "map_of (entries c) (cache_key category q region) = None \<or>
             (\<exists>e v. map_of (entries c) (cache_key category q region) = Some (e, v) \<and> \<not> t1 < e)"
    by (auto simp: cached_value_def split: option.splits if_splits)
  then have "cache_deadline c t1 (cache_key category q region) = t1 + ttl c"
    by (auto simp: cache_deadline_def)
  with assms(2) have "t2 < t1 + ttl c" by simp
  then have "cached_value (cache_setitem c t1 (cache_key category q region)
                 (score_and_rank w (pipeline st w category q region))) t2
               (cache_key category q region)
             = Some (score_and_rank w (pipeline st w category q region))"
    by (rule cached_value_setitem)
  then show ?thesis
    unfolding get_recommendations_miss [OF miss]
    by (simp add: get_recommendations_hit)
next
  case (Some a)
  then obtain v c' where g: "cache_getitem c t1 (cache_key category q region) = Some (v, c')"
    by (cases a) auto
  from cached_value_after_hit [OF g assms]
  have "cached_value c' t2 (cache_key category q region) = Some v" .
  then have "fst (get_recommendations st2 w2 t2 c' category q region limit) = py_take limit v"
    by (rule get_recommendations_hit)
  moreover from g have "get_recommendations st w t1 c category q region limit = (py_take limit v, c')"
    by (simp add: get_recommendations_def)
  ultimately show ?thesis by simp
qed

theorem repeat_within_ttl_identical_witness:
  "(0::rat) \<le> 179 \<and>
   179 < cache_deadline (recommendation_cache default_settings) 0 (cache_key ''movies'' ''inception'' ''US'') \<and>
   fst (get_recommendations default_settings offline 179
          (snd (get_recommendations default_settings cinema 0 (recommendation_cache default_settings)
                  ''movies'' ''inception'' ''US'' 20))
          ''movies'' ''inception'' ''US'' 20)
     = fst (get_recommendations default_settings cinema 0 (recommendation_cache default_settings)
              ''movies'' ''inception'' ''US'' 20) \<and>
   (10::rat) \<le> 100 \<and>
   100 < cache_deadline warm_cache 10 (cache_key ''movies'' ''inception'' ''US'') \<and>
   fst (get_recommendations default_settings offline 100
          (snd (get_recommendations default_settings cinema 10 warm_cache
                  ''movies'' ''inception'' ''US'' 5))
          ''movies'' ''inception'' ''US'' 5)
     = fst (get_recommendations default_settings cinema 10 warm_cache
              ''movies'' ''inception'' ''US'' 5)"
proof -
  have h1: "(0::rat) \<le> 179" by simp
  have h2: "179 < cache_deadline (recommendation_cache default_settings) 0
                    (cache_key ''movies'' ''inception'' ''US'')"
    by (simp add: cache_deadline_def recommendation_cache_def TTLCache_def default_settings_def)
  have h3: "(10::rat) \<le> 100" by simp
  have h4: "100 < cache_deadline warm_cache 10 (cache_key ''movies'' ''inception'' ''US'')"
    by (simp add: cache_deadline_def warm_cache_def)
  from repeat_within_ttl_identical [OF h1 h2, of default_settings offline default_settings cinema 20]
    repeat_within_ttl_identical [OF h3 h4, of default_settings offline default_settings cinema 5]
    h1 h2 h3 h4
  show ?thesis by (intro conjI)
qed

text \<open>
  C7. On a cache hit the response is the stored list sliced to the limit, whatever the
  catalogs would answer (the pipeline is not run). On a miss the pipeline runs, its full ranked
  result is written to the cache under the key, and the response is that result sliced to the
  limit. In particular, with 20 items stored for movies, inception, US, a request with limit
  5 returns the elements 0 to 4 of the stored list.
\<close>

theorem cache_hit_slice_miss_write:
  "(\<forall>stored. cached_value c now (cache_key category q region) = Some stored \<longrightarrow>
      (\<forall>st' w'. fst (get_recommendations st' w' now c category q region limit)
                 = py_take limit stored)) \<and>
   (cached_value c now (cache_key category q region) = None \<longrightarrow>
      fst (get_recommendations st w now c category q region limit)
        = py_take limit (score_and_rank w (pipeline st w category q region)) \<and>
      map_of (entries (snd (get_recommendations st w now c category q region limit)))
          (cache_key category q region)
        = Some (now + ttl c, score_and_rank w (pipeline st w category q region))) \<and>
   (\<forall>stored. cached_value c now (cache_key ''movies'' ''inception'' ''US'') = Some stored \<and>
             length stored = 20 \<longrightarrow>
      fst (get_recommendations st w now c ''movies'' ''inception'' ''US'' 5)
        = [stored ! 0, stored ! 1, stored ! 2, stored ! 3, stored ! 4])"
proof (intro conjI allI impI)
  fix stored st' w'
  assume "cached_value c now (cache_key category q region) = Some stored"
  then show "fst (get_recommendations st' w' now c category q region limit) = py_take limit stored"
    by (rule get_recommendations_hit)
next
  assume miss: "cached_value c now (cache_key category q region) = None"
  show "fst (get_recommendations st w now c category q region limit)
        = py_take limit (score_and_rank w (pipeline st w category q region))"
    by (simp add: get_recommendations_miss [OF miss])
  show "map_of (entries (snd (get_recommendations st w now c category q region limit)))
          (cache_key category q region)
        = Some (now + ttl c, score_and_rank w (pipeline st w category q region))"
    by (simp add: get_recommendations_miss [OF miss] map_of_cache_setitem)
next
  fix stored
  assume a: "cached_value c now (cache_key ''movies'' ''inception'' ''US'') = Some stored \<and>
             length stored = 20"
  then have "fst (get_recommendations st w now c ''movies'' ''inception'' ''US'' 5) = take 5 stored"
    by (simp add: get_recommendations_hit py_take_def)
  also have "take 5 stored = [stored ! 0, stored ! 1, stored ! 2, stored ! 3, stored ! 4]"
  proof (rule nth_equalityI)
    show "length (take 5 stored) = length [stored ! 0, stored ! 1, stored ! 2, stored ! 3, stored ! 4]"
      using a by simp
  next
    fix i
    assume "i < length (take 5 stored)"
    then have "i < 5" by simp
    then have "i = 0 \<or> i = 1 \<or> i = 2 \<or> i = 3 \<or> i = 4" by arith
    then show "take 5 stored ! i = [stored ! 0, stored ! 1, stored ! 2, stored ! 3, stored ! 4] ! i"
      by (elim disjE) simp_all
  qed
  finally show "fst (get_recommendations st w now c ''movies'' ''inception'' ''US'' 5)
      = [stored ! 0, stored ! 1, stored ! 2, stored ! 3, stored ! 4]" .
qed

theorem cache_hit_slice_miss_write_witness:
  "cached_value warm_cache 10 (cache_key ''movies'' ''inception'' ''US'') = Some twenty_items \<and>
   length twenty_items = 20 \<and>
   fst (get_recommendations default_settings cinema 10 warm_cache ''movies'' ''inception'' ''US'' 5)
     = [twenty_items ! 0, twenty_items ! 1, twenty_items ! 2, twenty_items ! 3, twenty_items ! 4] \<and>
   fst (get_recommendations default_settings offline 10 warm_cache ''movies'' ''inception'' ''US'' 5)
     = py_take 5 twenty_items \<and>
   cached_value (recommendation_cache default_settings) 0 (cache_key ''movies'' ''inception'' ''US'') = None \<and>
   map_of (entries (snd (get_recommendations default_settings cinema 0
                           (recommendation_cache default_settings) ''movies'' ''inception'' ''US'' 1)))
       (cache_key ''movies'' ''inception'' ''US'')
     = Some (0 + ttl (recommendation_cache default_settings),
             score_and_rank cinema (pipeline default_settings cinema ''movies'' ''inception'' ''US''))"
proof -
  have h1: "cached_value warm_cache 10 (cache_key ''movies'' ''inception'' ''US'') = Some twenty_items"
    by (simp add: cached_value_def warm_cache_def)
  have h2: "length twenty_items = 20"
    by (simp add: twenty_items_def)
  have h3: "cached_value (recommendation_cache default_settings) 0
              (cache_key ''movies'' ''inception'' ''US'') = None"
    by simp
  note hit = cache_hit_slice_miss_write
                [of warm_cache 10 "''movies''" "''inception''" "''US''" 5 default_settings cinema]
  note miss = cache_hit_slice_miss_write
                [of "recommendation_cache default_settings" 0 "''movies''" "''inception''" "''US''" 1
                    default_settings cinema]
  from hit h1 h2
  have a: "fst (get_recommendations default_settings cinema 10 warm_cache ''movies'' ''inception'' ''US'' 5)
     = [twenty_items ! 0, twenty_items ! 1, twenty_items ! 2, twenty_items ! 3, twenty_items ! 4]"
    by blast
  from hit h1
  have b: "fst (get_recommendations default_settings offline 10 warm_cache ''movies'' ''inception'' ''US'' 5)
     = py_take 5 twenty_items"
    by blast
  from miss h3
  have c: "map_of (entries (snd (get_recommendations default_settings cinema 0
                           (recommendation_cache default_settings) ''movies'' ''inception'' ''US'' 1)))
       (cache_key ''movies'' ''inception'' ''US'')
     = Some (0 + ttl (recommendation_cache default_settings),
             score_and_rank cinema (pipeline default_settings cinema ''movies'' ''inception'' ''US''))"
    by blast
  from h1 h2 a b h3 c show ?thesis by (intro conjI)
qed

text \<open>
  C8. When the source belongs to a collection and a candidate's collection does not match
  it, listing the candidate in the source's collection raises the candidate's score by exactly
  50, and the score of every other candidate is what it was.
\<close>

theorem franchise_match_adds_50:
  assumes "truthy (collection s)"
    and "get_tmdb_details w k Movie = Some d"
    and "\<not> (truthy (collection d) \<and> collection d = collection s)"
    and "c_id cand = k" and "k \<noteq> details_id s"
  shows "similarity_score s (d\<lparr>collection := collection s\<rparr>) = similarity_score s d + 50 \<and>
         score_candidate w s Movie cand = Some (cand\<lparr>c_score := Some (similarity_score s d)\<rparr>) \<and>
         score_candidate (with_franchise w k (collection s)) s Movie cand
           = Some (cand\<lparr>c_score := Some (similarity_score s d + 50)\<rparr>) \<and>
         (\<forall>other :: candidate. c_id other \<noteq> k \<longrightarrow>
            score_candidate (with_franchise w k (collection s)) s Movie other
              = score_candidate w s Movie other)"
proof (intro conjI allI impI)
  show step: "similarity_score s (d\<lparr>collection := collection s\<rparr>) = similarity_score s d + 50"
    using assms(1,3) by (rule franchise_step)
  show "score_candidate w s Movie cand = Some (cand\<lparr>c_score := Some (similarity_score s d)\<rparr>)"
    using assms(2,4,5) by (simp add: score_candidate_def)
  show "score_candidate (with_franchise w k (collection s)) s Movie cand
           = Some (cand\<lparr>c_score := Some (similarity_score s d + 50)\<rparr>)"
    using assms(4,5) get_tmdb_details_with_franchise [OF assms(2), of "collection s"] step
    by (simp add: score_candidate_def)
next
  fix other :: candidate
  assume "c_id other \<noteq> k"
  then show "score_candidate (with_franchise w k (collection s)) s Movie other
              = score_candidate w s Movie other"
    by (simp add: score_candidate_def get_tmdb_details_with_franchise_other)
qed

theorem franchise_match_adds_50_witness:
  "truthy (collection saga_source) \<and>
   get_tmdb_details cinema 577922 Movie = Some (extract_details 577922 Movie tenet_data) \<and>
   c_id (popular_candidate tenet_result) = 577922 \<and>
   577922 \<noteq> details_id saga_source \<and>
   score_candidate cinema saga_source Movie (popular_candidate tenet_result)
     = Some ((popular_candidate tenet_result)\<lparr>c_score := Some 87\<rparr>) \<and>
   score_candidate (with_franchise cinema 577922 (collection saga_source)) saga_source Movie
       (popular_candidate tenet_result)
     = Some ((popular_candidate tenet_result)\<lparr>c_score := Some 137\<rparr>) \<and>
   score_candidate (with_franchise cinema 577922 (collection saga_source)) saga_source Movie
       (popular_candidate paprika_result)
     = score_candidate cinema saga_source Movie (popular_candidate paprika_result)"
proof -
  have h1: "truthy (collection saga_source)"
    by (simp add: saga_source_def extract_details_def truthy_def)
  have h2: "get_tmdb_details cinema 577922 Movie = Some (extract_details 577922 Movie tenet_data)"
    by (rule cinema_details)
  have h3: "\<not> (truthy (collection (extract_details 577922 Movie tenet_data)) \<and>
               collection (extract_details 577922 Movie tenet_data) = collection saga_source)"
    by (simp add: extract_details_def tenet_data_def truthy_def)
  have h4: "c_id (popular_candidate tenet_result) = 577922"
    by (simp add: popular_candidate_def tenet_result_def)
  have h5: "577922 \<noteq> details_id saga_source"
    by (simp add: saga_source_def extract_details_def)
  have h6: "c_id (popular_candidate paprika_result) \<noteq> 577922"
    by (simp add: popular_candidate_def paprika_result_def)
  have sc: "similarity_score saga_source (extract_details 577922 Movie tenet_data) = 87"
    unfolding saga_source_def by code_simp
  note t = franchise_match_adds_50 [OF h1 h2 h3 h4 h5]
  from t sc have a: "score_candidate cinema saga_source Movie (popular_candidate tenet_result)
     = Some ((popular_candidate tenet_result)\<lparr>c_score := Some 87\<rparr>)"
    by simp
  from t sc have b: "score_candidate (with_franchise cinema 577922 (collection saga_source))
       saga_source Movie (popular_candidate tenet_result)
     = Some ((popular_candidate tenet_result)\<lparr>c_score := Some 137\<rparr>)"
    by simp
  from t h6 have c: "score_candidate (with_franchise cinema 577922 (collection saga_source))
       saga_source Movie (popular_candidate paprika_result)
     = score_candidate cinema saga_source Movie (popular_candidate paprika_result)"
    by blast
  from h1 h2 h4 h5 a b c show ?thesis by (intro conjI)
qed

text \<open>
  C9 as the code has it. The TTL of the result cache is the configured \<open>cache_ttl\<close>; the
  maximum entry count is the literal 1000 of the module, whatever the settings are.
\<close>

theorem cache_ttl_configured_maxsize_literal:
  "ttl (recommendation_cache st) = rat_of_int (cache_ttl st) \<and>
   maxsize (recommendation_cache st) = 1000"
  by (simp add: recommendation_cache_def TTLCache_def)

text \<open>
  The claim C9 as stated fails for the maximum entry count: it is 1000 under the default
  settings and under settings that differ in every numeric value, and it is none of the
  configured numbers.
\<close>

theorem cache_maxsize_not_configured:
  "maxsize (recommendation_cache default_settings) = 1000 \<and>
   maxsize (recommendation_cache
      (default_settings\<lparr>api_timeout := 1, cache_ttl := 2, max_results_per_query := 3\<rparr>)) = 1000 \<and>
   int (maxsize (recommendation_cache default_settings))
     \<notin> set [api_timeout default_settings, cache_ttl default_settings,
              max_results_per_query default_settings]"
  by (simp add: recommendation_cache_def TTLCache_def default_settings_def)

text \<open>
  C10. A category outside youtube, tiktok, movies and tv, on a cache miss, yields the empty
  list: no catalog is asked, no fallback list is used, and the empty list is what the cache
  then holds.
\<close>

theorem unknown_category_empty:
  assumes "category \<notin> set [''youtube'', ''tiktok'', ''movies'', ''tv'']"
    and "\<not> cache_contains c now (cache_key category q region)"
  shows "fst (get_recommendations st w now c category q region limit) = [] \<and>
         map_of (entries (snd (get_recommendations st w now c category q region limit)))
           (cache_key category q region) = Some (now + ttl c, [])"
proof -
  from assms(2) have miss: "cached_value c now (cache_key category q region) = None"
    by (simp add: cache_contains_cached_value)
  from assms(1) have "pipeline st w category q region = []"
    by (simp add: pipeline_def)
  then show ?thesis
    unfolding get_recommendations_miss [OF miss]
    by (simp add: score_and_rank_def py_take_def map_of_cache_setitem)
qed

theorem unknown_category_empty_witness:
  "''podcasts'' \<notin> set [''youtube'', ''tiktok'', ''movies'', ''tv''] \<and>
   \<not> cache_contains (recommendation_cache default_settings) 0 (cache_key ''podcasts'' ''news'' ''US'') \<and>
   fst (get_recommendations default_settings cinema 0 (recommendation_cache default_settings)
          ''podcasts'' ''news'' ''US'' 20) = []"
proof -
  have h1: "''podcasts'' \<notin> set [''youtube'', ''tiktok'', ''movies'', ''tv'']" by simp
  have h2: "\<not> cache_contains (recommendation_cache default_settings) 0
               (cache_key ''podcasts'' ''news'' ''US'')"
    by (simp add: cache_contains_cached_value)
  show ?thesis
    using unknown_category_empty [OF h1 h2, of default_settings cinema 20] h1 h2 by simp
qed

end
